theory Spec2Isabelle
  imports Complex_Main
begin

section \<open>JavaScript values that the store and the stream client handle\<close>

text \<open>
  A JavaScript \<open>number\<close>. The code below never computes with numbers: it copies them,
  and it tests them for truthiness. A finite value is represented by the rational it
  denotes (both zeros by \<open>0\<close>); the three special values are constructors of their own.
\<close>

datatype number = NaN | PosInfinity | NegInfinity | Finite rat

text \<open>Truthiness of a number: \<open>0\<close>, \<open>-0\<close> and \<open>NaN\<close> are falsy, everything else is truthy.\<close>

fun truthy_number :: "number \<Rightarrow> bool" where
  "truthy_number NaN = False"
| "truthy_number (Finite q) = (q \<noteq> 0)"
| "truthy_number PosInfinity = True"
| "truthy_number NegInfinity = True"

section \<open>The asset store (\<open>store/crypto-slice\<close>)\<close>

text \<open>\<open>interface CryptoAsset\<close> of \<open>services/crypto-data.ts\<close>; \<open>maxSupply\<close> is \<open>number | null\<close>.\<close>

record CryptoAsset =
  id' :: string
  name :: string
  symbol :: string
  logo :: string
  price :: number
  percentChange1h :: number
  percentChange24h :: number
  percentChange7d :: number
  marketCap :: number
  volume24h :: number
  circulatingSupply :: number
  maxSupply :: "number option"
  sparkline7d :: "number list"

text \<open>
  \<open>interface AssetUpdatePayload\<close>: every field but \<open>id\<close> is optional. \<open>None\<close> is a
  property that the payload object does not have, \<open>Some v\<close> a property with value \<open>v\<close>.
\<close>

record AssetUpdatePayload =
  p_id :: string
  p_price :: "number option"
  p_percentChange1h :: "number option"
  p_percentChange24h :: "number option"
  p_percentChange7d :: "number option"
  p_volume24h :: "number option"
  p_sparkline7d :: "number list option"

datatype status = Idle | Loading | Succeeded | Failed

text \<open>The \<open>error\<close> field of the slice is \<open>string | null | undefined\<close>.\<close>

datatype error_field = ErrNull | ErrUndefined | ErrMessage string

record CryptoState =
  assets :: "CryptoAsset list"
  status :: status
  error :: error_field

definition initialState :: CryptoState where
  "initialState = \<lparr>assets = [], status = Idle, error = ErrNull\<rparr>"

text \<open>
  \<open>Array.prototype.findIndex\<close>: the index of the first element that satisfies the
  predicate, \<open>-1\<close> when there is none.
\<close>

fun findIndex :: "('a \<Rightarrow> bool) \<Rightarrow> 'a list \<Rightarrow> int" where
  "findIndex P [] = - 1"
| "findIndex P (x # xs) =
     (if P x then 0
      else (let r = findIndex P xs in if r = - 1 then - 1 else r + 1))"

text \<open>
  The object spread \<open>{ ...asset, ...payload }\<close>: every property that the payload has
  overwrites the asset's, every other property of the asset stays.
\<close>

definition spread :: "CryptoAsset \<Rightarrow> AssetUpdatePayload \<Rightarrow> CryptoAsset" where
  "spread a u =
     a\<lparr>id' := p_id u,
       price := (case p_price u of Some v \<Rightarrow> v | None \<Rightarrow> price a),
       percentChange1h := (case p_percentChange1h u of Some v \<Rightarrow> v | None \<Rightarrow> percentChange1h a),
       percentChange24h := (case p_percentChange24h u of Some v \<Rightarrow> v | None \<Rightarrow> percentChange24h a),
       percentChange7d := (case p_percentChange7d u of Some v \<Rightarrow> v | None \<Rightarrow> percentChange7d a),
       volume24h := (case p_volume24h u of Some v \<Rightarrow> v | None \<Rightarrow> volume24h a),
       sparkline7d := (case p_sparkline7d u of Some v \<Rightarrow> v | None \<Rightarrow> sparkline7d a)\<rparr>"

text \<open>
  The guard \<open>action.payload.price && !action.payload.sparkline7d\<close>. An absent price is
  \<open>undefined\<close> and falsy, a present one is tested as a number; an array is always
  truthy, so \<open>!sparkline7d\<close> holds exactly when the property is absent.
\<close>

definition shifts :: "AssetUpdatePayload \<Rightarrow> bool" where
  "shifts u \<longleftrightarrow>
     (case p_price u of None \<Rightarrow> False | Some v \<Rightarrow> truthy_number v) \<and> p_sparkline7d u = None"

text \<open>
  The reducer \<open>updateAsset\<close>. \<open>currentSparkline.slice(1)\<close> is the list without its first
  element, and the empty list for an empty list, as \<open>tl\<close> is. In the first branch the
  payload's price is present, so \<open>the\<close> is applied to \<open>Some\<close> only; an index other
  than \<open>-1\<close> is a position of the list (\<open>findIndex_found\<close> below), so the read and the
  assignment are in range.
\<close>

definition updateAsset :: "CryptoState \<Rightarrow> AssetUpdatePayload \<Rightarrow> CryptoState" where
  "updateAsset state payload =
     (let assetIndex = findIndex (\<lambda>asset. id' asset = p_id payload) (assets state) in
      if assetIndex \<noteq> - 1 then
        (let i = nat assetIndex; old = assets state ! i in
         if shifts payload then
           (let currentSparkline = sparkline7d old;
                newSparkline = tl currentSparkline @ [the (p_price payload)]
            in state\<lparr>assets := (assets state)[i := (spread old payload)\<lparr>sparkline7d := newSparkline\<rparr>]\<rparr>)
         else state\<lparr>assets := (assets state)[i := spread old payload]\<rparr>)
      else state)"

section \<open>The stream client (\<open>services/mock-socket.ts\<close>)\<close>

subsection \<open>Values and builtins of the JavaScript host\<close>

text \<open>
  What \<open>JSON.parse\<close> can return, and \<open>undefined\<close>, which a property read can return.
  An object is the list of its own properties.
\<close>

datatype jsval =
    JUndefined
  | JNull
  | JBool bool
  | JNum number
  | JStr string
  | JArr "jsval list"
  | JObj "(string \<times> jsval) list"

datatype js_error = SyntaxError | TypeError | DOMException

text \<open>Truthiness of a value (\<open>ToBoolean\<close>).\<close>

fun truthy :: "jsval \<Rightarrow> bool" where
  "truthy JUndefined = False"
| "truthy JNull = False"
| "truthy (JBool b) = b"
| "truthy (JNum n) = truthy_number n"
| "truthy (JStr s) = (s \<noteq> [])"
| "truthy (JArr xs) = True"
| "truthy (JObj kvs) = True"

text \<open>
  The property read \<open>v.k\<close>, for the names that the message handler reads (\<open>data\<close>,
  \<open>e\<close>, \<open>s\<close>, \<open>c\<close>, \<open>P\<close>, \<open>q\<close>): a \<open>TypeError\<close> on \<open>null\<close> and \<open>undefined\<close>, the own
  property of an object when it has one, and \<open>undefined\<close> otherwise (no prototype of a
  parsed JSON value has a property of one of these names).
\<close>

fun get_prop :: "jsval \<Rightarrow> string \<Rightarrow> js_error + jsval" where
  "get_prop JUndefined k = Inl TypeError"
| "get_prop JNull k = Inl TypeError"
| "get_prop (JObj kvs) k = Inr (case map_of kvs k of Some v \<Rightarrow> v | None \<Rightarrow> JUndefined)"
| "get_prop v k = Inr JUndefined"

text \<open>\<open>Array.prototype.join\<close> on a list of strings.\<close>

fun join :: "string \<Rightarrow> string list \<Rightarrow> string" where
  "join sep [] = []"
| "join sep [x] = x"
| "join sep (x # y # ys) = x @ sep @ join sep (y # ys)"

text \<open>
  The builtins whose result the client depends on are parameters of the model:
  \<open>JSON.parse\<close> returns a value or throws; \<open>parseFloat\<close> returns a number, or throws
  when its argument cannot be converted to a string; \<open>String.prototype.toUpperCase\<close> and
  \<open>toLowerCase\<close> map a string to a string, and the model fixes nothing about them (they
  follow the Unicode case mappings, which need not keep the length of the string); the
  constructor \<open>new WebSocket(url)\<close> yields a socket (\<open>None\<close>) or throws (\<open>Some e\<close>).
\<close>

record host =
  JSON_parse :: "string \<Rightarrow> js_error + jsval"
  parseFloat :: "jsval \<Rightarrow> js_error + number"
  toUpperCase :: "string \<Rightarrow> string"
  toLowerCase :: "string \<Rightarrow> string"
  new_WebSocket :: "string \<Rightarrow> js_error option"

text \<open>
  What the two case mappings do on a string of ASCII characters is known without the
  Unicode tables: each of the 26 letters is mapped to its counterpart, and every other
  character stays. \<open>ascii_case_mapping h\<close> says that the host \<open>h\<close> does so; it says nothing
  about a string with a character outside ASCII.
\<close>

definition ascii :: "string \<Rightarrow> bool" where
  "ascii s \<longleftrightarrow> list_all (\<lambda>c. (of_char c :: nat) < 128) s"

definition upper_char :: "char \<Rightarrow> char" where
  "upper_char c =
     (case map_of (zip ''abcdefghijklmnopqrstuvwxyz'' ''ABCDEFGHIJKLMNOPQRSTUVWXYZ'') c of
        Some C \<Rightarrow> C
      | None \<Rightarrow> c)"

definition lower_char :: "char \<Rightarrow> char" where
  "lower_char c =
     (case map_of (zip ''ABCDEFGHIJKLMNOPQRSTUVWXYZ'' ''abcdefghijklmnopqrstuvwxyz'') c of
        Some C \<Rightarrow> C
      | None \<Rightarrow> c)"

definition ascii_case_mapping :: "host \<Rightarrow> bool" where
  "ascii_case_mapping h \<longleftrightarrow>
     (\<forall>s. ascii s \<longrightarrow> toUpperCase h s = map upper_char s \<and> toLowerCase h s = map lower_char s)"

subsection \<open>State of the client\<close>

text \<open>
  A \<open>WebSocket\<close> object, as far as the client uses it: its URL, for each of the four
  handler properties whether the client's handler is assigned (\<open>True\<close>) or the property
  is \<open>null\<close>, and the arguments of \<open>close\<close> once it has been called.
\<close>

record WebSocket =
  url :: string
  onopen :: bool
  onmessage :: bool
  onerror :: bool
  onclose :: bool
  close_args :: "(nat \<times> string) option"

text \<open>The one callback that the client passes to \<open>setTimeout\<close>: \<open>() => this.start(this.initialAssets)\<close>.\<close>

datatype callback = Reconnect

text \<open>
  The fields of \<open>class BinanceWebSocketService\<close>, then the two parts of the runtime that
  its methods act on: the \<open>WebSocket\<close> objects created so far (\<open>ws\<close> refers to one by
  its position), and the pending timers with their delay in milliseconds.
\<close>

record BinanceWebSocketService =
  ws :: "nat option"
  initialAssets :: "CryptoAsset list"
  symbolToIdMap :: "string \<rightharpoonup> string"

record client = BinanceWebSocketService +
  sockets :: "WebSocket list"
  timers :: "(nat \<times> callback) list"

definition new_client :: client where
  "new_client = \<lparr>ws = None, initialAssets = [], symbolToIdMap = Map.empty, sockets = [], timers = []\<rparr>"

record CloseEvent =
  code :: nat
  reason :: string
  wasClean :: bool

definition BINANCE_WS_URL :: string where
  "BINANCE_WS_URL = ''wss://stream.binance.com:9443/stream''"

subsection \<open>Methods\<close>

text \<open>
  \<open>mapBinanceSymbolToAssetId\<close>: calling \<open>toUpperCase\<close> on anything but a string is a
  \<open>TypeError\<close>; \<open>Map.get\<close> returns the stored id or \<open>undefined\<close> (\<open>None\<close>).
\<close>

fun mapBinanceSymbolToAssetId :: "host \<Rightarrow> client \<Rightarrow> jsval \<Rightarrow> js_error + string option" where
  "mapBinanceSymbolToAssetId h c (JStr binanceSymbol) =
     Inr (symbolToIdMap c (toUpperCase h binanceSymbol))"
| "mapBinanceSymbolToAssetId h c v = Inl TypeError"

text \<open>
  The body of the \<open>try\<close> block of \<open>handleMessage\<close>: \<open>Inl e\<close> when it throws \<open>e\<close>,
  \<open>Inr None\<close> when it ends without a dispatch, \<open>Inr (Some u)\<close> when it dispatches
  \<open>updateAsset(u)\<close>. \<open>!assetId\<close> holds for \<open>undefined\<close> and for the empty string.
\<close>

definition handleMessage_try :: "host \<Rightarrow> client \<Rightarrow> string \<Rightarrow> js_error + AssetUpdatePayload option" where
  "handleMessage_try h c data =
     (case JSON_parse h data of
        Inl e \<Rightarrow> Inl e
      | Inr message \<Rightarrow>
         (case get_prop message ''data'' of
            Inl e \<Rightarrow> Inl e
          | Inr d \<Rightarrow>
             if truthy d \<and> get_prop d ''e'' = Inr (JStr ''24hrTicker'') then
               (case get_prop d ''s'' of
                  Inl e \<Rightarrow> Inl e
                | Inr s \<Rightarrow>
                   (case mapBinanceSymbolToAssetId h c s of
                      Inl e \<Rightarrow> Inl e
                    | Inr None \<Rightarrow> Inr None
                    | Inr (Some assetId) \<Rightarrow>
                       if assetId = [] then Inr None
                       else
                         (case get_prop d ''c'' of Inl e \<Rightarrow> Inl e | Inr vc \<Rightarrow>
                          case parseFloat h vc of Inl e \<Rightarrow> Inl e | Inr pc \<Rightarrow>
                          case get_prop d ''P'' of Inl e \<Rightarrow> Inl e | Inr vP \<Rightarrow>
                          case parseFloat h vP of Inl e \<Rightarrow> Inl e | Inr pP \<Rightarrow>
                          case get_prop d ''q'' of Inl e \<Rightarrow> Inl e | Inr vq \<Rightarrow>
                          case parseFloat h vq of Inl e \<Rightarrow> Inl e | Inr pq \<Rightarrow>
                            Inr (Some \<lparr>p_id = assetId,
                                       p_price = Some pc,
                                       p_percentChange1h = None,
                                       p_percentChange24h = Some pP,
                                       p_percentChange7d = None,
                                       p_volume24h = Some pq,
                                       p_sparkline7d = None\<rparr>))))
             else Inr None))"

text \<open>
  \<open>handleMessage\<close>: the \<open>try\<close> block with its \<open>catch\<close>, which logs the error and
  returns. No exception leaves the handler.
\<close>

datatype outcome = Dispatched AssetUpdatePayload | Returned | Caught js_error

definition handleMessage :: "host \<Rightarrow> client \<Rightarrow> string \<Rightarrow> outcome" where
  "handleMessage h c data =
     (case handleMessage_try h c data of
        Inl e \<Rightarrow> Caught e
      | Inr None \<Rightarrow> Returned
      | Inr (Some updatePayload) \<Rightarrow> Dispatched updatePayload)"

text \<open>
  The store after the handler has run on a frame: \<open>dispatch\<close> runs the reducer, which is
  total on a store of this type, so the dispatch itself throws nothing.
\<close>

definition store_after_message :: "host \<Rightarrow> client \<Rightarrow> CryptoState \<Rightarrow> string \<Rightarrow> CryptoState" where
  "store_after_message h c state data =
     (case handleMessage h c data of
        Dispatched updatePayload \<Rightarrow> updateAsset state updatePayload
      | Returned \<Rightarrow> state
      | Caught e \<Rightarrow> state)"

text \<open>\<open>handleClose\<close>: clears the handle and, on an unclean close, calls \<open>setTimeout\<close>.\<close>

definition handleClose :: "client \<Rightarrow> CloseEvent \<Rightarrow> client" where
  "handleClose c event =
     (let c1 = c\<lparr>ws := None\<rparr> in
      if length (initialAssets c1) > 0 \<and> \<not> wasClean event
      then c1\<lparr>timers := timers c1 @ [(5000, Reconnect)]\<rparr>
      else c1)"

text \<open>
  \<open>stop\<close>: the four handler properties of the current socket are set to \<open>null\<close>, the
  handle is cleared, \<open>close(1000, "Client called stop")\<close> is called on the socket; then
  the cached asset list is cleared, whether or not there was a socket.
\<close>

definition stop :: "client \<Rightarrow> client" where
  "stop c =
     (let c1 =
        (case ws c of
           Some i \<Rightarrow>
             c\<lparr>ws := None,
               sockets := (sockets c)[i := (sockets c ! i)
                 \<lparr>onopen := False, onmessage := False, onerror := False, onclose := False,
                  close_args := Some (1000, ''Client called stop'')\<rparr>]\<rparr>
         | None \<Rightarrow> c)
      in c1\<lparr>initialAssets := []\<rparr>)"

text \<open>
  \<open>start\<close>. The registry is cleared and then filled in the order of the list, so a later
  asset overwrites an earlier one with the same key. A constructor that throws leaves
  \<open>ws\<close> as it is, which is \<open>null\<close> at that point.
\<close>

definition start :: "host \<Rightarrow> client \<Rightarrow> CryptoAsset list \<Rightarrow> client" where
  "start h c assets' =
     (let c1 = (if ws c \<noteq> None then stop c else c) in
      if length assets' = 0 then c1
      else
        (let c2 = c1\<lparr>initialAssets := assets',
                     symbolToIdMap :=
                       foldl (\<lambda>m asset. m(toUpperCase h (symbol asset @ ''USDT'') \<mapsto> id' asset))
                         Map.empty assets'\<rparr>;
             streams = join ''/''
               (filter (\<lambda>stream. stream \<noteq> [])
                  (map (\<lambda>asset. toLowerCase h (symbol asset) @ ''usdt@ticker'') assets'))
         in if streams = [] then c2
            else
              (let url' = BINANCE_WS_URL @ ''?streams='' @ streams in
               case new_WebSocket h url' of
                 Some e \<Rightarrow> c2
               | None \<Rightarrow>
                   c2\<lparr>ws := Some (length (sockets c2)),
                      sockets := sockets c2 @
                        [\<lparr>url = url', onopen = True, onmessage = True, onerror = True,
                          onclose = True, close_args = None\<rparr>]\<rparr>)))"

subsection \<open>The runtime: timers and transport events\<close>

text \<open>Running a callback of \<open>setTimeout\<close>: \<open>this.initialAssets\<close> is read when it runs.\<close>

fun run_callback :: "host \<Rightarrow> client \<Rightarrow> callback \<Rightarrow> client" where
  "run_callback h c Reconnect = start h c (initialAssets c)"

text \<open>
  What the runtime can do between two calls of the client's methods: run a pending timer,
  which leaves the queue, or deliver an event of a socket to the handler assigned to it.
  An event of a socket whose handler property is \<open>null\<close> reaches no code of the client
  and is no step. The handlers of \<open>open\<close> and \<open>error\<close> only write to the console.
\<close>

datatype env_event =
    Timer_fires nat
  | Socket_open nat
  | Socket_message nat string
  | Socket_error nat
  | Socket_close nat CloseEvent

fun env_step :: "host \<Rightarrow> client \<times> CryptoState \<Rightarrow> env_event \<Rightarrow> (client \<times> CryptoState) option" where
  "env_step h (c, state) (Timer_fires k) =
     (if k < length (timers c)
      then Some (run_callback h (c\<lparr>timers := take k (timers c) @ drop (Suc k) (timers c)\<rparr>)
                   (snd (timers c ! k)), state)
      else None)"
| "env_step h (c, state) (Socket_open i) =
     (if i < length (sockets c) \<and> onopen (sockets c ! i) then Some (c, state) else None)"
| "env_step h (c, state) (Socket_message i data) =
     (if i < length (sockets c) \<and> onmessage (sockets c ! i)
      then Some (c, store_after_message h c state data) else None)"
| "env_step h (c, state) (Socket_error i) =
     (if i < length (sockets c) \<and> onerror (sockets c ! i) then Some (c, state) else None)"
| "env_step h (c, state) (Socket_close i event) =
     (if i < length (sockets c) \<and> onclose (sockets c ! i)
      then Some (handleClose c event, state) else None)"

fun env_run :: "host \<Rightarrow> client \<times> CryptoState \<Rightarrow> env_event list \<Rightarrow> (client \<times> CryptoState) option" where
  "env_run h s [] = Some s"
| "env_run h s (ev # evs) =
     (case env_step h s ev of None \<Rightarrow> None | Some s' \<Rightarrow> env_run h s' evs)"

section \<open>Concrete data for the scenarios\<close>

text \<open>The asset of the scenario in the specification, and a second asset beside it.\<close>

definition ex_bitcoin :: CryptoAsset where
  "ex_bitcoin =
     \<lparr>id' = ''bitcoin'', name = ''Bitcoin'', symbol = ''BTC'', logo = ''btc.png'',
      price = Finite 7, percentChange1h = Finite 0, percentChange24h = Finite 0,
      percentChange7d = Finite 0, marketCap = Finite 137900000, volume24h = Finite 500,
      circulatingSupply = Finite 19700000, maxSupply = Some (Finite 21000000),
      sparkline7d = [Finite 1, Finite 2, Finite 3, Finite 4, Finite 5, Finite 6, Finite 7]\<rparr>"

definition ex_ethereum :: CryptoAsset where
  "ex_ethereum =
     \<lparr>id' = ''ethereum'', name = ''Ethereum'', symbol = ''ETH'', logo = ''eth.png'',
      price = Finite 3, percentChange1h = Finite 0, percentChange24h = Finite 0,
      percentChange7d = Finite 0, marketCap = Finite 360000000, volume24h = Finite 200,
      circulatingSupply = Finite 120000000, maxSupply = None,
      sparkline7d = [Finite 3, Finite 3, Finite 3, Finite 3, Finite 3, Finite 3, Finite 3]\<rparr>"

definition ex_state :: CryptoState where
  "ex_state = \<lparr>assets = [ex_bitcoin, ex_ethereum], status = Succeeded, error = ErrNull\<rparr>"

text \<open>A payload with an id only; the scenarios add fields to it.\<close>

definition ex_payload :: "string \<Rightarrow> AssetUpdatePayload" where
  "ex_payload i =
     \<lparr>p_id = i, p_price = None, p_percentChange1h = None, p_percentChange24h = None,
      p_percentChange7d = None, p_volume24h = None, p_sparkline7d = None\<rparr>"

text \<open>
  The frame of the scenario as \<open>JSON.parse\<close> returns it, and a host for the scenarios:
  it parses the text \<open>ticker\<close> to that value, the texts \<open>other\<close> and \<open>eth\<close> to a frame
  of another event kind and to a frame of another symbol, and rejects every other text;
  it parses the three numerals of the scenario; its case mappings are the ASCII ones; its
  \<open>WebSocket\<close> constructor accepts every URL.
\<close>

definition ticker_frame :: "string \<Rightarrow> string \<Rightarrow> jsval" where
  "ticker_frame e s =
     JObj [(''stream'', JStr ''btcusdt@ticker''),
           (''data'', JObj [(''e'', JStr e), (''s'', JStr s),
                            (''c'', JStr ''8''), (''P'', JStr ''1.5''), (''q'', JStr ''1000'')])]"

definition ex_frame :: jsval where
  "ex_frame = ticker_frame ''24hrTicker'' ''BTCUSDT''"

definition ex_host :: host where
  "ex_host =
     \<lparr>JSON_parse = (\<lambda>text. if text = ''ticker'' then Inr ex_frame
                            else if text = ''other'' then Inr (ticker_frame ''otherEvent'' ''BTCUSDT'')
                            else if text = ''eth'' then Inr (ticker_frame ''24hrTicker'' ''ETHUSDT'')
                            else Inl SyntaxError),
      parseFloat = (\<lambda>v. if v = JStr ''8'' then Inr (Finite 8)
                         else if v = JStr ''1.5'' then Inr (Finite (3 / 2))
                         else if v = JStr ''1000'' then Inr (Finite 1000)
                         else Inr NaN),
      toUpperCase = map upper_char,
      toLowerCase = map lower_char,
      new_WebSocket = (\<lambda>u. None)\<rparr>"

text \<open>
  A ticker frame for \<open>BTCUSDT\<close> whose last price is the text \<open>0.00000000\<close>, and a host that
  parses the text \<open>zero\<close> to it and the numeral \<open>0.00000000\<close> to the number \<open>0\<close>.
\<close>

definition zero_frame :: jsval where
  "zero_frame =
     JObj [(''stream'', JStr ''btcusdt@ticker''),
           (''data'', JObj [(''e'', JStr ''24hrTicker''), (''s'', JStr ''BTCUSDT''),
                            (''c'', JStr ''0.00000000''), (''P'', JStr ''1.5''),
                            (''q'', JStr ''1000'')])]"

definition zero_host :: host where
  "zero_host =
     \<lparr>JSON_parse = (\<lambda>text. if text = ''zero'' then Inr zero_frame else Inl SyntaxError),
      parseFloat = (\<lambda>v. if v = JStr ''0.00000000'' then Inr (Finite 0)
                         else if v = JStr ''1.5'' then Inr (Finite (3 / 2))
                         else if v = JStr ''1000'' then Inr (Finite 1000)
                         else Inr NaN),
      toUpperCase = map upper_char,
      toLowerCase = map lower_char,
      new_WebSocket = (\<lambda>u. None)\<rparr>"

text \<open>A client on which \<open>start\<close> has been called with the asset of the scenario.\<close>

definition ex_client :: client where
  "ex_client = start ex_host new_client [ex_bitcoin]"

definition unclean :: CloseEvent where
  "unclean = \<lparr>code = 1006, reason = [], wasClean = False\<rparr>"

definition clean :: CloseEvent where
  "clean = \<lparr>code = 1000, reason = [], wasClean = True\<rparr>"

section \<open>Facts about \<open>findIndex\<close>\<close>

lemma findIndex_bounds: "- 1 \<le> findIndex P xs \<and> findIndex P xs < int (length xs)"
  by (induction xs) (auto simp: Let_def)

lemma findIndex_none_iff: "findIndex P xs = - 1 \<longleftrightarrow> (\<forall>x \<in> set xs. \<not> P x)"
proof (induction xs)
  case Nil
  show ?case by simp
next
  case (Cons x xs)
  have "- 1 \<le> findIndex P xs" using findIndex_bounds [of P xs] by simp
  then have "findIndex P xs + 1 \<noteq> - 1" by arith
  with Cons show ?case by (auto simp: Let_def)
qed

lemma findIndex_first:
  "i < length xs \<Longrightarrow> P (xs ! i) \<Longrightarrow> (\<forall>j < i. \<not> P (xs ! j)) \<Longrightarrow> findIndex P xs = int i"
proof (induction xs arbitrary: i)
  case Nil
  then show ?case by simp
next
  case (Cons x xs)
  show ?case
  proof (cases i)
    case 0
    with Cons.prems show ?thesis by simp
  next
    case (Suc k)
    from Cons.prems Suc have nx: "\<not> P x" by fastforce
    from Cons.prems Suc have "k < length xs" "P (xs ! k)" "\<forall>j < k. \<not> P (xs ! j)" by fastforce+
    then have "findIndex P xs = int k" by (rule Cons.IH)
    with nx Suc show ?thesis by (simp add: Let_def)
  qed
qed

lemma findIndex_found:
  assumes "findIndex P xs \<noteq> - 1"
  shows "nat (findIndex P xs) < length xs \<and> P (xs ! nat (findIndex P xs))
         \<and> (\<forall>j < nat (findIndex P xs). \<not> P (xs ! j)) \<and> 0 \<le> findIndex P xs"
  using assms
proof (induction xs)
  case Nil
  then show ?case by simp
next
  case (Cons x xs)
  show ?case
  proof (cases "P x")
    case True
    then show ?thesis by simp
  next
    case False
    with Cons.prems have ne: "findIndex P xs \<noteq> - 1" by (auto simp: Let_def split: if_splits)
    from Cons.IH [OF ne] have ih: "nat (findIndex P xs) < length xs" "P (xs ! nat (findIndex P xs))"
      "\<forall>j < nat (findIndex P xs). \<not> P (xs ! j)" "0 \<le> findIndex P xs" by auto
    from False ne have eq: "findIndex P (x # xs) = findIndex P xs + 1" by (simp add: Let_def)
    from ih(4) have n: "nat (findIndex P xs + 1) = Suc (nat (findIndex P xs))" by simp
    show ?thesis unfolding eq n using ih False by (auto simp: less_Suc_eq_0_disj)
  qed
qed

section \<open>The reducer on a matched and on an unmatched id\<close>

lemma updateAsset_unmatched:
  assumes "\<forall>a \<in> set (assets st). id' a \<noteq> p_id u"
  shows "updateAsset st u = st"
proof -
  from assms have "findIndex (\<lambda>asset. id' asset = p_id u) (assets st) = - 1"
    by (simp add: findIndex_none_iff)
  then show ?thesis by (simp add: updateAsset_def)
qed

lemma updateAsset_matched:
  assumes "i < length (assets st)" and "id' (assets st ! i) = p_id u"
    and "\<forall>j < i. id' (assets st ! j) \<noteq> p_id u"
  shows "updateAsset st u =
    st\<lparr>assets := (assets st)[i :=
      (if shifts u
       then (spread (assets st ! i) u)\<lparr>sparkline7d := tl (sparkline7d (assets st ! i)) @ [the (p_price u)]\<rparr>
       else spread (assets st ! i) u)]\<rparr>"
proof -
  from assms have "findIndex (\<lambda>asset. id' asset = p_id u) (assets st) = int i"
    by (intro findIndex_first) auto
  then show ?thesis by (simp add: updateAsset_def Let_def)
qed

lemma updateAsset_cases:
  obtains (unmatched) "updateAsset st u = st"
  | (matched) i where "i < length (assets st)" "id' (assets st ! i) = p_id u"
      "\<forall>j < i. id' (assets st ! j) \<noteq> p_id u"
proof (cases "findIndex (\<lambda>asset. id' asset = p_id u) (assets st) = - 1")
  case True
  then have "updateAsset st u = st" by (simp add: updateAsset_def)
  then show ?thesis by (rule unmatched)
next
  case False
  from findIndex_found [OF False] show ?thesis by (intro matched) auto
qed

lemma shifts_iff:
  "shifts u \<longleftrightarrow> (\<exists>P. p_price u = Some P \<and> P \<noteq> NaN \<and> P \<noteq> Finite 0) \<and> p_sparkline7d u = None"
proof -
  have "truthy_number P \<longleftrightarrow> P \<noteq> NaN \<and> P \<noteq> Finite 0" for P by (cases P) auto
  then show ?thesis by (auto simp: shifts_def split: option.splits)
qed

lemmas ex_defs = ex_state_def ex_bitcoin_def ex_ethereum_def ex_payload_def

section \<open>The rolling history: shift, replace, frame\<close>

text \<open>
  The branch that shifts. Let the asset at position \<open>i\<close> be the first one of the store
  that carries the id of the event (ids are unique in the data model of the
  specification, so this is the asset with that id), and let its sparkline \<open>S\<close> have 7
  elements. When the guard holds, that is for an event with a truthy price \<open>P\<close> and with
  no \<open>sparkline7d\<close> field, the new sparkline is \<open>S[1:] + [P]\<close>, of 7 elements again. The
  last section shows the branch that the guard sends a price of \<open>0\<close> to.
\<close>
lemma price_only_update_shifts_sparkline:
  assumes "i < length (assets st)" and "id' (assets st ! i) = p_id u"
    and "\<forall>j < i. id' (assets st ! j) \<noteq> p_id u"
    and "p_price u = Some P" and "P \<noteq> NaN" and "P \<noteq> Finite 0"
    and "p_sparkline7d u = None"
    and "length (sparkline7d (assets st ! i)) = 7"
  shows "sparkline7d (assets (updateAsset st u) ! i) = tl (sparkline7d (assets st ! i)) @ [P]
       \<and> length (sparkline7d (assets (updateAsset st u) ! i)) = 7"
proof -
  from assms(4-7) have sh: "shifts u" by (simp add: shifts_iff)
  show ?thesis
    using assms(1,4,8) sh by (simp add: updateAsset_matched [OF assms(1-3)])
qed

text \<open>The lemma at the asset \<open>bitcoin\<close> and the price 8.\<close>
lemma price_only_update_shifts_sparkline_instance:
  "(0::nat) < length (assets ex_state)
   \<and> id' (assets ex_state ! 0) = p_id ((ex_payload ''bitcoin'')\<lparr>p_price := Some (Finite 8)\<rparr>)
   \<and> p_sparkline7d ((ex_payload ''bitcoin'')\<lparr>p_price := Some (Finite 8)\<rparr>) = None
   \<and> length (sparkline7d (assets ex_state ! 0)) = 7
   \<and> sparkline7d (assets (updateAsset ex_state ((ex_payload ''bitcoin'')\<lparr>p_price := Some (Finite 8)\<rparr>)) ! 0)
       = [Finite 2, Finite 3, Finite 4, Finite 5, Finite 6, Finite 7, Finite 8]"
  using price_only_update_shifts_sparkline
    [of 0 ex_state "(ex_payload ''bitcoin'')\<lparr>p_price := Some (Finite 8)\<rparr>" "Finite 8"]
  by (simp add: ex_defs)

text \<open>
  Claim C5. An event with a \<open>sparkline7d\<close> field \<open>S\<close> leaves the matched asset with the
  sparkline \<open>S\<close>, whatever the sparkline was before and whether or not the event has a
  price: nothing is shifted.
\<close>
theorem explicit_sparkline_replaces_buffer:
  assumes "i < length (assets st)" and "id' (assets st ! i) = p_id u"
    and "\<forall>j < i. id' (assets st ! j) \<noteq> p_id u"
    and "p_sparkline7d u = Some S"
  shows "sparkline7d (assets (updateAsset st u) ! i) = S"
proof -
  from assms(4) have "\<not> shifts u" by (simp add: shifts_def)
  then show ?thesis
    using assms(1,4) by (simp add: updateAsset_matched [OF assms(1-3)] spread_def)
qed

text \<open>The theorem at the asset \<open>ethereum\<close>, with a price and a sparkline of two elements.\<close>
theorem explicit_sparkline_replaces_buffer_witness:
  "(1::nat) < length (assets ex_state)
   \<and> id' (assets ex_state ! 1) = ''ethereum''
   \<and> id' (assets ex_state ! 0) \<noteq> ''ethereum''
   \<and> sparkline7d (assets (updateAsset ex_state
        ((ex_payload ''ethereum'')\<lparr>p_price := Some (Finite 9),
           p_sparkline7d := Some [Finite 4, Finite 5]\<rparr>)) ! 1) = [Finite 4, Finite 5]"
  using explicit_sparkline_replaces_buffer
    [of 1 ex_state "(ex_payload ''ethereum'')\<lparr>p_price := Some (Finite 9),
           p_sparkline7d := Some [Finite 4, Finite 5]\<rparr>" "[Finite 4, Finite 5]"]
  by (simp add: ex_defs)

text \<open>
  Claim C6. An event whose id no asset of the store carries leaves the whole state of
  the store as it is.
\<close>
theorem unknown_id_is_noop:
  assumes "\<forall>a \<in> set (assets st). id' a \<noteq> p_id u"
  shows "updateAsset st u = st"
  using assms by (rule updateAsset_unmatched)

text \<open>The theorem at the id \<open>dogecoin\<close>, which the store of the scenario does not hold.\<close>
theorem unknown_id_is_noop_witness:
  "''dogecoin'' \<notin> set (map id' (assets ex_state))
   \<and> updateAsset ex_state ((ex_payload ''dogecoin'')\<lparr>p_price := Some (Finite 8)\<rparr>) = ex_state"
  using unknown_id_is_noop [of ex_state "(ex_payload ''dogecoin'')\<lparr>p_price := Some (Finite 8)\<rparr>"]
  by (simp add: ex_defs)

text \<open>
  Claim C10. An event whose id matches changes the matched asset only: the list keeps its
  length, every other position and the order of the ids; \<open>status\<close>, \<open>error\<close> and every
  other part of the state stay. In the matched asset the fields that no event can carry
  stay, a field that the event does not carry stays, and the sparkline of an event
  without \<open>sparkline7d\<close> stays unless the event has a price other than \<open>0\<close> and \<open>NaN\<close>,
  in which case it is shifted.
\<close>
theorem update_changes_matched_asset_only:
  assumes "i < length (assets st)" and "id' (assets st ! i) = p_id u"
    and "\<forall>j < i. id' (assets st ! j) \<noteq> p_id u"
  shows "length (assets (updateAsset st u)) = length (assets st)
    \<and> (\<forall>j < length (assets st). j \<noteq> i \<longrightarrow> assets (updateAsset st u) ! j = assets st ! j)
    \<and> map id' (assets (updateAsset st u)) = map id' (assets st)
    \<and> status (updateAsset st u) = status st
    \<and> error (updateAsset st u) = error st
    \<and> updateAsset st u = st\<lparr>assets := assets (updateAsset st u)\<rparr>
    \<and> id' (assets (updateAsset st u) ! i) = id' (assets st ! i)
    \<and> name (assets (updateAsset st u) ! i) = name (assets st ! i)
    \<and> symbol (assets (updateAsset st u) ! i) = symbol (assets st ! i)
    \<and> logo (assets (updateAsset st u) ! i) = logo (assets st ! i)
    \<and> marketCap (assets (updateAsset st u) ! i) = marketCap (assets st ! i)
    \<and> circulatingSupply (assets (updateAsset st u) ! i) = circulatingSupply (assets st ! i)
    \<and> maxSupply (assets (updateAsset st u) ! i) = maxSupply (assets st ! i)
    \<and> CryptoAsset.more (assets (updateAsset st u) ! i) = CryptoAsset.more (assets st ! i)
    \<and> (p_price u = None \<longrightarrow> price (assets (updateAsset st u) ! i) = price (assets st ! i))
    \<and> (p_percentChange1h u = None \<longrightarrow>
          percentChange1h (assets (updateAsset st u) ! i) = percentChange1h (assets st ! i))
    \<and> (p_percentChange24h u = None \<longrightarrow>
          percentChange24h (assets (updateAsset st u) ! i) = percentChange24h (assets st ! i))
    \<and> (p_percentChange7d u = None \<longrightarrow>
          percentChange7d (assets (updateAsset st u) ! i) = percentChange7d (assets st ! i))
    \<and> (p_volume24h u = None \<longrightarrow> volume24h (assets (updateAsset st u) ! i) = volume24h (assets st ! i))
    \<and> (p_sparkline7d u = None \<longrightarrow>
          sparkline7d (assets (updateAsset st u) ! i) =
            (case p_price u of
               None \<Rightarrow> sparkline7d (assets st ! i)
             | Some P \<Rightarrow> if P = NaN \<or> P = Finite 0 then sparkline7d (assets st ! i)
                         else tl (sparkline7d (assets st ! i)) @ [P]))"
proof -
  let ?a = "assets st ! i"
  let ?new = "if shifts u
       then (spread ?a u)\<lparr>sparkline7d := tl (sparkline7d ?a) @ [the (p_price u)]\<rparr>
       else spread ?a u"
  have eq: "updateAsset st u = st\<lparr>assets := (assets st)[i := ?new]\<rparr>"
    by (rule updateAsset_matched [OF assms])
  have at_i: "assets (updateAsset st u) ! i = ?new"
    using assms(1) by (simp add: eq)
  have ids: "id' ?new = id' ?a" using assms(2) by (simp add: spread_def)
  have "map id' ((assets st)[i := ?new]) = (map id' (assets st))[i := id' ?new]"
    by (rule map_update)
  also have "\<dots> = map id' (assets st)" using assms(1) by (simp add: ids list_update_same_conv)
  finally have ord: "map id' (assets (updateAsset st u)) = map id' (assets st)" by (simp add: eq)
  have spark: "p_sparkline7d u = None \<longrightarrow> sparkline7d ?new =
            (case p_price u of
               None \<Rightarrow> sparkline7d ?a
             | Some P \<Rightarrow> if P = NaN \<or> P = Finite 0 then sparkline7d ?a
                         else tl (sparkline7d ?a) @ [P])"
    by (auto simp: shifts_iff spread_def split: option.splits)
  have others: "\<forall>j < length (assets st). j \<noteq> i \<longrightarrow> assets (updateAsset st u) ! j = assets st ! j"
    by (simp add: eq)
  have fields: "name ?new = name ?a" "symbol ?new = symbol ?a" "logo ?new = logo ?a"
    "marketCap ?new = marketCap ?a" "circulatingSupply ?new = circulatingSupply ?a"
    "maxSupply ?new = maxSupply ?a" "CryptoAsset.more ?new = CryptoAsset.more ?a"
    by (simp_all add: spread_def)
  have opt: "p_price u = None \<longrightarrow> price ?new = price ?a"
    "p_percentChange1h u = None \<longrightarrow> percentChange1h ?new = percentChange1h ?a"
    "p_percentChange24h u = None \<longrightarrow> percentChange24h ?new = percentChange24h ?a"
    "p_percentChange7d u = None \<longrightarrow> percentChange7d ?new = percentChange7d ?a"
    "p_volume24h u = None \<longrightarrow> volume24h ?new = volume24h ?a"
    by (simp_all add: spread_def)
  have frame: "updateAsset st u = st\<lparr>assets := assets (updateAsset st u)\<rparr>"
    by (simp add: eq)
  have len: "length (assets (updateAsset st u)) = length (assets st)" by (simp add: eq)
  have se: "status (updateAsset st u) = status st" "error (updateAsset st u) = error st"
    by (simp_all add: eq)
  show ?thesis
    unfolding at_i using len others ord se frame ids fields opt spark by blast
qed

text \<open>The theorem at the asset \<open>bitcoin\<close> and an event with a price only.\<close>
theorem update_changes_matched_asset_only_witness:
  "(0::nat) < length (assets ex_state)
   \<and> id' (assets ex_state ! 0) = ''bitcoin''
   \<and> assets (updateAsset ex_state ((ex_payload ''bitcoin'')\<lparr>p_price := Some (Finite 8)\<rparr>)) ! 1 = ex_ethereum
   \<and> length (assets (updateAsset ex_state ((ex_payload ''bitcoin'')\<lparr>p_price := Some (Finite 8)\<rparr>))) = 2
   \<and> status (updateAsset ex_state ((ex_payload ''bitcoin'')\<lparr>p_price := Some (Finite 8)\<rparr>)) = Succeeded
   \<and> volume24h (assets (updateAsset ex_state ((ex_payload ''bitcoin'')\<lparr>p_price := Some (Finite 8)\<rparr>)) ! 0)
       = Finite 500
   \<and> sparkline7d (assets (updateAsset ex_state ((ex_payload ''bitcoin'')\<lparr>p_price := Some (Finite 8)\<rparr>)) ! 0)
       = [Finite 2, Finite 3, Finite 4, Finite 5, Finite 6, Finite 7, Finite 8]"
  using update_changes_matched_asset_only
    [of 0 ex_state "(ex_payload ''bitcoin'')\<lparr>p_price := Some (Finite 8)\<rparr>"]
  by (simp add: ex_defs)

text \<open>
  Claim C2, as amended. When every sparkline of the store has 7 elements, and the event
  has no \<open>sparkline7d\<close> field or one of 7 elements, every sparkline has 7 elements after
  the update. An event with a \<open>sparkline7d\<close> field \<open>S\<close> leaves the matched asset with the
  sparkline \<open>S\<close>, so that its last element is the last element of \<open>S\<close>, whatever the price
  of the event is; an event with a price \<open>P\<close> leaves the matched asset with the price \<open>P\<close>.
\<close>
theorem sparkline_invariant_preserved:
  "((\<forall>a \<in> set (assets st). length (sparkline7d a) = 7)
      \<and> (\<forall>S'. p_sparkline7d u = Some S' \<longrightarrow> length S' = 7)
    \<longrightarrow> (\<forall>a \<in> set (assets (updateAsset st u)). length (sparkline7d a) = 7))
   \<and> (i < length (assets st) \<and> id' (assets st ! i) = p_id u
      \<and> (\<forall>j < i. id' (assets st ! j) \<noteq> p_id u) \<and> p_sparkline7d u = Some S
    \<longrightarrow> sparkline7d (assets (updateAsset st u) ! i) = S)
   \<and> (i < length (assets st) \<and> id' (assets st ! i) = p_id u
      \<and> (\<forall>j < i. id' (assets st ! j) \<noteq> p_id u) \<and> p_price u = Some P
    \<longrightarrow> price (assets (updateAsset st u) ! i) = P)"
proof (intro conjI impI)
  assume inv: "(\<forall>a \<in> set (assets st). length (sparkline7d a) = 7)
      \<and> (\<forall>S'. p_sparkline7d u = Some S' \<longrightarrow> length S' = 7)"
  show "\<forall>a \<in> set (assets (updateAsset st u)). length (sparkline7d a) = 7"
  proof (cases rule: updateAsset_cases [of st u])
    case unmatched
    with inv show ?thesis by simp
  next
    case (matched k)
    let ?a = "assets st ! k"
    let ?new = "if shifts u
       then (spread ?a u)\<lparr>sparkline7d := tl (sparkline7d ?a) @ [the (p_price u)]\<rparr>
       else spread ?a u"
    have eq: "updateAsset st u = st\<lparr>assets := (assets st)[k := ?new]\<rparr>"
      by (rule updateAsset_matched [OF matched])
    from matched(1) inv have old: "length (sparkline7d ?a) = 7" by simp
    have new: "length (sparkline7d ?new) = 7"
      using old inv by (auto simp: spread_def split: option.splits)
    have "set ((assets st)[k := ?new]) \<subseteq> insert ?new (set (assets st))"
      by (rule set_update_subset_insert)
    with inv new show ?thesis unfolding eq by auto
  qed
next
  assume g: "i < length (assets st) \<and> id' (assets st ! i) = p_id u
      \<and> (\<forall>j < i. id' (assets st ! j) \<noteq> p_id u) \<and> p_sparkline7d u = Some S"
  then have m: "i < length (assets st)" "id' (assets st ! i) = p_id u"
    "\<forall>j < i. id' (assets st ! j) \<noteq> p_id u" by auto
  from g have "\<not> shifts u" by (simp add: shifts_def)
  with g show "sparkline7d (assets (updateAsset st u) ! i) = S"
    by (simp add: updateAsset_matched [OF m] spread_def)
next
  assume g: "i < length (assets st) \<and> id' (assets st ! i) = p_id u
      \<and> (\<forall>j < i. id' (assets st ! j) \<noteq> p_id u) \<and> p_price u = Some P"
  then have m: "i < length (assets st)" "id' (assets st ! i) = p_id u"
    "\<forall>j < i. id' (assets st ! j) \<noteq> p_id u" by auto
  from g show "price (assets (updateAsset st u) ! i) = P"
    by (simp add: updateAsset_matched [OF m] spread_def)
qed

text \<open>
  The theorem at the store of the scenario, for an event with the price 8 only and for
  an event with the price 9 and a sparkline of 7 elements that ends in 5.
\<close>
theorem sparkline_invariant_preserved_witness:
  "map (\<lambda>a. length (sparkline7d a)) (assets ex_state) = [7, 7]
   \<and> list_all (\<lambda>a. length (sparkline7d a) = 7)
        (assets (updateAsset ex_state ((ex_payload ''bitcoin'')\<lparr>p_price := Some (Finite 8)\<rparr>)))
   \<and> price (assets (updateAsset ex_state ((ex_payload ''bitcoin'')\<lparr>p_price := Some (Finite 8)\<rparr>)) ! 0)
       = Finite 8
   \<and> list_all (\<lambda>a. length (sparkline7d a) = 7)
        (assets (updateAsset ex_state ((ex_payload ''bitcoin'')\<lparr>p_price := Some (Finite 9),
           p_sparkline7d := Some [Finite 1, Finite 1, Finite 1, Finite 1, Finite 1, Finite 1, Finite 5]\<rparr>)))
   \<and> sparkline7d (assets (updateAsset ex_state ((ex_payload ''bitcoin'')\<lparr>p_price := Some (Finite 9),
           p_sparkline7d := Some [Finite 1, Finite 1, Finite 1, Finite 1, Finite 1, Finite 1, Finite 5]\<rparr>)) ! 0)
       = [Finite 1, Finite 1, Finite 1, Finite 1, Finite 1, Finite 1, Finite 5]"
proof -
  let ?u = "(ex_payload ''bitcoin'')\<lparr>p_price := Some (Finite 8)\<rparr>"
  let ?S = "[Finite 1, Finite 1, Finite 1, Finite 1, Finite 1, Finite 1, Finite 5]"
  let ?v = "(ex_payload ''bitcoin'')\<lparr>p_price := Some (Finite 9), p_sparkline7d := Some ?S\<rparr>"
  have h1: "\<forall>a \<in> set (assets ex_state). length (sparkline7d a) = 7" by (simp add: ex_defs)
  have h2: "\<forall>S'. p_sparkline7d ?u = Some S' \<longrightarrow> length S' = 7" by (simp add: ex_defs)
  have h3: "\<forall>S'. p_sparkline7d ?v = Some S' \<longrightarrow> length S' = 7" by (auto simp: ex_defs)
  have m: "0 < length (assets ex_state)" "id' (assets ex_state ! 0) = p_id ?u"
    "id' (assets ex_state ! 0) = p_id ?v" "p_price ?u = Some (Finite 8)"
    "p_sparkline7d ?v = Some ?S" by (simp_all add: ex_defs)
  note t = sparkline_invariant_preserved [where st = ex_state and u = ?u and i = 0 and P = "Finite 8"]
  note t' = sparkline_invariant_preserved [where st = ex_state and u = ?v and i = 0 and S = ?S]
  from t h1 h2 have a: "\<forall>a \<in> set (assets (updateAsset ex_state ?u)). length (sparkline7d a) = 7"
    by blast
  from t m have b: "price (assets (updateAsset ex_state ?u) ! 0) = Finite 8" by simp
  from t' h1 h3 have a': "\<forall>a \<in> set (assets (updateAsset ex_state ?v)). length (sparkline7d a) = 7"
    by blast
  from t' m have b': "sparkline7d (assets (updateAsset ex_state ?v) ! 0) = ?S" by simp
  have c: "map (\<lambda>a. length (sparkline7d a)) (assets ex_state) = [7, 7]" by (simp add: ex_defs)
  from a have d: "list_all (\<lambda>a. length (sparkline7d a) = 7) (assets (updateAsset ex_state ?u))"
    by (simp add: list_all_iff)
  from a' have d': "list_all (\<lambda>a. length (sparkline7d a) = 7) (assets (updateAsset ex_state ?v))"
    by (simp add: list_all_iff)
  from c d b d' b' show ?thesis by blast
qed

text \<open>
  The claim C2 as it is written, for every update, fails on a store whose sparklines all
  have 7 elements when the event has a \<open>sparkline7d\<close> field, which replaces the buffer as
  it is: a sequence of two elements leaves a sparkline of two elements, and a sequence
  that ends in 5 with the price 9 leaves the last element 5 beside the price 9.
\<close>
theorem sparkline_invariant_broken:
  "map (\<lambda>a. length (sparkline7d a)) (assets ex_state) = [7, 7]
   \<and> length (sparkline7d (assets (updateAsset ex_state
        ((ex_payload ''bitcoin'')\<lparr>p_sparkline7d := Some [Finite 4, Finite 5]\<rparr>)) ! 0)) = 2
   \<and> price (assets (updateAsset ex_state ((ex_payload ''bitcoin'')\<lparr>p_price := Some (Finite 9),
        p_sparkline7d := Some [Finite 1, Finite 1, Finite 1, Finite 1, Finite 1, Finite 1, Finite 5]\<rparr>)) ! 0)
       = Finite 9
   \<and> last (sparkline7d (assets (updateAsset ex_state ((ex_payload ''bitcoin'')\<lparr>p_price := Some (Finite 9),
        p_sparkline7d := Some [Finite 1, Finite 1, Finite 1, Finite 1, Finite 1, Finite 1, Finite 5]\<rparr>)) ! 0))
       = Finite 5"
  by (simp add: updateAsset_def shifts_def spread_def Let_def ex_defs)

section \<open>The stream client: close, stop and reconnection\<close>

lemma ex_host_case:
  "toUpperCase ex_host = map upper_char" "toLowerCase ex_host = map lower_char"
  by (simp_all add: ex_host_def)

lemmas case_defs = ex_host_case upper_char_def lower_char_def

lemma ex_client_eq:
  "ex_client =
     \<lparr>ws = Some 0, initialAssets = [ex_bitcoin],
      symbolToIdMap = [''BTCUSDT'' \<mapsto> ''bitcoin''],
      sockets = [\<lparr>url = ''wss://stream.binance.com:9443/stream?streams=btcusdt@ticker'',
                  onopen = True, onmessage = True, onerror = True, onclose = True,
                  close_args = None\<rparr>],
      timers = []\<rparr>"
  by (simp add: ex_client_def start_def new_client_def ex_host_def ex_bitcoin_def
      BINANCE_WS_URL_def case_defs Let_def)

lemma handleClose_simps:
  "ws (handleClose c ev) = None"
  "initialAssets (handleClose c ev) = initialAssets c"
  "symbolToIdMap (handleClose c ev) = symbolToIdMap c"
  "sockets (handleClose c ev) = sockets c"
  "timers (handleClose c ev) =
     (if initialAssets c \<noteq> [] \<and> \<not> wasClean ev then timers c @ [(5000, Reconnect)] else timers c)"
  by (simp_all add: handleClose_def Let_def)

text \<open>
  Claim C3. On an unclean close with a non-empty cached asset list, \<open>handleClose\<close> adds
  exactly one timer, with the delay 5000 ms; when that timer runs, it leaves the queue and
  \<open>start\<close> is called with the asset list that was cached at the close. On a clean close,
  or with an empty cached list, the queue of timers stays as it was. In both cases the
  handle is cleared, and the handler itself opens no socket.
\<close>

theorem close_schedules_reconnect:
  "(\<not> wasClean ev \<and> initialAssets c \<noteq> [] \<longrightarrow>
      timers (handleClose c ev) = timers c @ [(5000, Reconnect)]
      \<and> env_step h (handleClose c ev, st) (Timer_fires (length (timers c)))
          = Some (start h ((handleClose c ev)\<lparr>timers := timers c\<rparr>) (initialAssets c), st))
   \<and> (wasClean ev \<or> initialAssets c = [] \<longrightarrow> timers (handleClose c ev) = timers c)
   \<and> ws (handleClose c ev) = None
   \<and> initialAssets (handleClose c ev) = initialAssets c
   \<and> sockets (handleClose c ev) = sockets c"
  by (auto simp: handleClose_simps)

text \<open>
  The theorem at the client of the scenario, once for an unclean and once for a clean
  close.
\<close>

theorem close_schedules_reconnect_witness:
  "\<not> wasClean unclean \<and> initialAssets ex_client = [ex_bitcoin]
   \<and> timers ex_client = []
   \<and> timers (handleClose ex_client unclean) = [(5000, Reconnect)]
   \<and> env_step ex_host (handleClose ex_client unclean, ex_state) (Timer_fires 0)
        = Some (start ex_host ((handleClose ex_client unclean)\<lparr>timers := []\<rparr>) [ex_bitcoin], ex_state)
   \<and> wasClean clean
   \<and> timers (handleClose ex_client clean) = []"
  using close_schedules_reconnect [of unclean ex_client ex_host ex_state]
    close_schedules_reconnect [of clean ex_client ex_host ex_state]
  by (simp add: ex_client_eq unclean_def clean_def)

lemma stop_simps:
  "ws (stop c) = None"
  "initialAssets (stop c) = []"
  "symbolToIdMap (stop c) = symbolToIdMap c"
  "timers (stop c) = timers c"
  "length (sockets (stop c)) = length (sockets c)"
  by (simp_all add: stop_def Let_def split: option.splits)

lemma stop_idem: "stop (stop c) = stop c"
  by (simp add: stop_def Let_def split: option.splits)

lemma stop_detaches:
  assumes "ws c = Some i" and "i < length (sockets c)"
  shows "sockets (stop c) ! i =
     (sockets c ! i)\<lparr>onopen := False, onmessage := False, onerror := False, onclose := False,
                      close_args := Some (1000, ''Client called stop'')\<rparr>"
  using assms by (simp add: stop_def Let_def)

lemma start_empty_stopped:
  assumes "ws c = None"
  shows "start h c [] = c"
  using assms by (simp add: start_def)

text \<open>A stopped client: no handle and no cached asset list.\<close>

lemma env_step_stopped:
  assumes "ws c = None" and "initialAssets c = []"
    and "env_step h (c, st) ev = Some (c', st')"
  shows "ws c' = None \<and> initialAssets c' = [] \<and> sockets c' = sockets c
       \<and> symbolToIdMap c' = symbolToIdMap c \<and> length (timers c') \<le> length (timers c)"
proof (cases ev)
  case (Timer_fires k)
  with assms(3) have k: "k < length (timers c)" by (simp split: if_splits)
  let ?c = "c\<lparr>timers := take k (timers c) @ drop (Suc k) (timers c)\<rparr>"
  have cb: "snd (timers c ! k) = Reconnect" by (cases "snd (timers c ! k)") simp
  have "start h ?c [] = ?c" using assms(1) by (intro start_empty_stopped) simp
  with assms Timer_fires k cb have "c' = ?c" by simp
  then show ?thesis using assms(1,2) k by simp
next
  case (Socket_open i)
  with assms show ?thesis by (simp split: if_splits)
next
  case (Socket_message i d)
  with assms show ?thesis by (simp split: if_splits)
next
  case (Socket_error i)
  with assms show ?thesis by (simp split: if_splits)
next
  case (Socket_close i e)
  with assms(3) have "c' = handleClose c e" by (simp split: if_splits)
  with assms(1,2) show ?thesis by (simp add: handleClose_simps)
qed

lemma env_run_stopped:
  assumes "env_run h (c, st) evs = Some (c', st')"
    and "ws c = None" and "initialAssets c = []"
  shows "ws c' = None \<and> initialAssets c' = [] \<and> sockets c' = sockets c
       \<and> symbolToIdMap c' = symbolToIdMap c \<and> length (timers c') \<le> length (timers c)"
  using assms
proof (induction evs arbitrary: c st)
  case Nil
  then show ?case by simp
next
  case (Cons ev evs)
  from Cons.prems(1) obtain c1 st1 where
    step: "env_step h (c, st) ev = Some (c1, st1)" and
    run: "env_run h (c1, st1) evs = Some (c', st')"
    by (auto split: option.splits)
  from env_step_stopped [OF Cons.prems(2,3) step]
  have s1: "ws c1 = None" "initialAssets c1 = []" "sockets c1 = sockets c"
    "symbolToIdMap c1 = symbolToIdMap c" "length (timers c1) \<le> length (timers c)" by auto
  from Cons.IH [OF run s1(1,2)] s1 show ?case by simp
qed

text \<open>
  Claim C4. \<open>stop\<close> is a total function of the state, and a second \<open>stop\<close> changes
  nothing. It leaves the client without a handle and without a cached asset list, adds no
  timer and opens no socket. The socket that it closes has its \<open>onclose\<close> property set to
  \<open>null\<close>, so the close of that socket does not reach \<open>handleClose\<close>. A timer that was
  pending when \<open>stop\<close> was called finds the cached list empty when it runs: it leaves the
  queue and the client is otherwise as \<open>stop\<close> left it. After \<open>stop\<close>, whatever timers
  run and whatever events the sockets deliver, in any number and order, the client has
  no handle and no cached list, no socket is created and no timer is added.
\<close>

theorem stop_prevents_reconnect:
  "stop (stop c) = stop c
   \<and> ws (stop c) = None
   \<and> initialAssets (stop c) = []
   \<and> timers (stop c) = timers c
   \<and> length (sockets (stop c)) = length (sockets c)
   \<and> (\<forall>i ev. ws c = Some i \<and> i < length (sockets c) \<longrightarrow>
         \<not> onclose (sockets (stop c) ! i)
         \<and> env_step h (stop c, st) (Socket_close i ev) = None)
   \<and> (\<forall>k. k < length (timers c) \<longrightarrow>
         env_step h (stop c, st) (Timer_fires k)
           = Some ((stop c)\<lparr>timers := take k (timers c) @ drop (Suc k) (timers c)\<rparr>, st))
   \<and> (\<forall>evs c' st'. env_run h (stop c, st) evs = Some (c', st') \<longrightarrow>
         ws c' = None \<and> initialAssets c' = [] \<and> sockets c' = sockets (stop c)
         \<and> length (timers c') \<le> length (timers c))"
proof (intro conjI allI impI)
  show "stop (stop c) = stop c" by (rule stop_idem)
  show "ws (stop c) = None" "initialAssets (stop c) = []" "timers (stop c) = timers c"
    "length (sockets (stop c)) = length (sockets c)" by (simp_all add: stop_simps)
next
  fix i ev
  assume h: "ws c = Some i \<and> i < length (sockets c)"
  then show "\<not> onclose (sockets (stop c) ! i)" by (simp add: stop_detaches)
  then show "env_step h (stop c, st) (Socket_close i ev) = None" by simp
next
  fix k
  assume k: "k < length (timers c)"
  let ?c = "(stop c)\<lparr>timers := take k (timers c) @ drop (Suc k) (timers c)\<rparr>"
  have cb: "snd (timers c ! k) = Reconnect" by (cases "snd (timers c ! k)") simp
  have "start h ?c [] = ?c" by (intro start_empty_stopped) (simp add: stop_simps)
  with k cb show "env_step h (stop c, st) (Timer_fires k) = Some (?c, st)"
    by (simp add: stop_simps)
next
  fix evs c' st'
  assume run: "env_run h (stop c, st) evs = Some (c', st')"
  from env_run_stopped [OF run] have r: "ws c' = None \<and> initialAssets c' = [] \<and> sockets c' = sockets (stop c)
       \<and> symbolToIdMap c' = symbolToIdMap (stop c) \<and> length (timers c') \<le> length (timers (stop c))"
    by (simp add: stop_simps)
  from r show "ws c' = None" "initialAssets c' = []" "sockets c' = sockets (stop c)"
    "length (timers c') \<le> length (timers c)" by (simp_all add: stop_simps)
qed

text \<open>
  The theorem at the client of the scenario with its live socket, and at the same client
  after an unclean close, when a reconnection is pending.
\<close>

theorem stop_prevents_reconnect_witness:
  "ws ex_client = Some 0
   \<and> onclose (sockets ex_client ! 0)
   \<and> stop (stop ex_client) = stop ex_client
   \<and> \<not> onclose (sockets (stop ex_client) ! 0)
   \<and> env_step ex_host (stop ex_client, ex_state) (Socket_close 0 unclean) = None
   \<and> timers (stop (handleClose ex_client unclean)) = [(5000, Reconnect)]
   \<and> env_run ex_host (stop (handleClose ex_client unclean), ex_state) [Timer_fires 0]
        = Some ((stop (handleClose ex_client unclean))\<lparr>timers := []\<rparr>, ex_state)
   \<and> ws (stop (handleClose ex_client unclean)) = None
   \<and> initialAssets (stop (handleClose ex_client unclean)) = []"
  using stop_prevents_reconnect [of ex_client ex_host ex_state]
    stop_prevents_reconnect [of "handleClose ex_client unclean" ex_host ex_state]
  by (simp add: ex_client_eq handleClose_def stop_def start_def unclean_def Let_def)

section \<open>The message handler\<close>

lemma get_prop_e_truthy:
  assumes "get_prop d k = Inr (JStr s)"
  shows "truthy d"
  using assms by (cases d) simp_all

lemma handleMessage_try_parse_error:
  assumes "JSON_parse h frame = Inl e"
  shows "handleMessage_try h c frame = Inl e"
  using assms by (simp add: handleMessage_try_def)

lemma handleMessage_try_other_kind:
  assumes "JSON_parse h frame = Inr message"
    and "\<forall>d. get_prop message ''data'' = Inr d \<longrightarrow> get_prop d ''e'' \<noteq> Inr (JStr ''24hrTicker'')"
  shows "handleMessage_try h c frame = Inr None \<or> handleMessage_try h c frame = Inl TypeError"
proof (cases "get_prop message ''data''")
  case (Inl e)
  then have "e = TypeError" by (cases message) simp_all
  with Inl assms(1) show ?thesis by (simp add: handleMessage_try_def)
next
  case (Inr d)
  with assms(2) have "get_prop d ''e'' \<noteq> Inr (JStr ''24hrTicker'')" by simp
  with Inr assms(1) show ?thesis by (simp add: handleMessage_try_def)
qed

lemma handleMessage_try_unresolved:
  assumes "JSON_parse h frame = Inr message"
    and "get_prop message ''data'' = Inr d"
    and "get_prop d ''s'' = Inr sv"
    and "\<forall>s. sv = JStr s \<longrightarrow> symbolToIdMap c (toUpperCase h s) = None"
  shows "handleMessage_try h c frame = Inr None \<or> handleMessage_try h c frame = Inl TypeError"
proof (cases "truthy d \<and> get_prop d ''e'' = Inr (JStr ''24hrTicker'')")
  case False
  with assms(1,2) show ?thesis by (auto simp: handleMessage_try_def)
next
  case True
  have "mapBinanceSymbolToAssetId h c sv = Inr None \<or> mapBinanceSymbolToAssetId h c sv = Inl TypeError"
    using assms(4) by (cases sv) simp_all
  with True assms(1-3) show ?thesis by (auto simp: handleMessage_try_def)
qed

lemma handleMessage_try_ticker:
  assumes "JSON_parse h frame = Inr message"
    and "get_prop message ''data'' = Inr d"
    and "get_prop d ''e'' = Inr (JStr ''24hrTicker'')"
    and "get_prop d ''s'' = Inr (JStr s)"
    and "symbolToIdMap c (toUpperCase h s) = Some assetId"
    and "assetId \<noteq> []"
    and "get_prop d ''c'' = Inr vc" and "parseFloat h vc = Inr pc"
    and "get_prop d ''P'' = Inr vP" and "parseFloat h vP = Inr pP"
    and "get_prop d ''q'' = Inr vq" and "parseFloat h vq = Inr pq"
  shows "handleMessage_try h c frame =
    Inr (Some \<lparr>p_id = assetId, p_price = Some pc, p_percentChange1h = None,
               p_percentChange24h = Some pP, p_percentChange7d = None,
               p_volume24h = Some pq, p_sparkline7d = None\<rparr>)"
proof -
  from assms(3) have "truthy d" by (rule get_prop_e_truthy)
  with assms show ?thesis by (simp add: handleMessage_try_def)
qed

lemma handleMessage_no_dispatch:
  assumes "handleMessage_try h c frame = Inr None \<or> handleMessage_try h c frame = Inl e"
  shows "(\<forall>u. handleMessage h c frame \<noteq> Dispatched u)
       \<and> (handleMessage h c frame = Returned \<or> handleMessage h c frame = Caught e)
       \<and> store_after_message h c state frame = state"
  using assms by (auto simp: handleMessage_def store_after_message_def)

text \<open>
  Claim C8. Let the frame be text that \<open>JSON.parse\<close> rejects, or a parsed value whose
  \<open>data.e\<close> is not the string \<open>24hrTicker\<close> (which includes a value without \<open>data\<close>), or a
  parsed value whose \<open>data.s\<close> is no string or a string that the registry does not map.
  Then the handler dispatches nothing: it returns, or it catches the exception, so that
  none leaves it; the store is as before, and so is the client when the runtime delivers
  the frame to it.
\<close>

theorem bad_frames_are_dropped:
  assumes "JSON_parse h frame = Inl e
      \<or> (JSON_parse h frame = Inr message
          \<and> (\<forall>d. get_prop message ''data'' = Inr d \<longrightarrow> get_prop d ''e'' \<noteq> Inr (JStr ''24hrTicker'')))
      \<or> (JSON_parse h frame = Inr message \<and> get_prop message ''data'' = Inr d
          \<and> get_prop d ''s'' = Inr sv
          \<and> (\<forall>s. sv = JStr s \<longrightarrow> symbolToIdMap c (toUpperCase h s) = None))"
  shows "(\<forall>u. handleMessage h c frame \<noteq> Dispatched u)
       \<and> (handleMessage h c frame = Returned \<or> (\<exists>e'. handleMessage h c frame = Caught e'))
       \<and> store_after_message h c state frame = state
       \<and> (\<forall>i. i < length (sockets c) \<and> onmessage (sockets c ! i) \<longrightarrow>
             env_step h (c, state) (Socket_message i frame) = Some (c, state))"
proof -
  from assms have "\<exists>e'. handleMessage_try h c frame = Inr None \<or> handleMessage_try h c frame = Inl e'"
  proof (elim disjE conjE)
    assume "JSON_parse h frame = Inl e"
    then show ?thesis by (auto simp: handleMessage_try_parse_error)
  next
    assume "JSON_parse h frame = Inr message"
      "\<forall>d. get_prop message ''data'' = Inr d \<longrightarrow> get_prop d ''e'' \<noteq> Inr (JStr ''24hrTicker'')"
    from handleMessage_try_other_kind [OF this] show ?thesis by blast
  next
    assume "JSON_parse h frame = Inr message" "get_prop message ''data'' = Inr d"
      "get_prop d ''s'' = Inr sv" "\<forall>s. sv = JStr s \<longrightarrow> symbolToIdMap c (toUpperCase h s) = None"
    from handleMessage_try_unresolved [OF this] show ?thesis by blast
  qed
  then obtain e' where "handleMessage_try h c frame = Inr None \<or> handleMessage_try h c frame = Inl e'"
    by blast
  from handleMessage_no_dispatch [OF this, of state]
  have r: "\<forall>u. handleMessage h c frame \<noteq> Dispatched u"
    "handleMessage h c frame = Returned \<or> handleMessage h c frame = Caught e'"
    "store_after_message h c state frame = state" by auto
  from r(3) have "\<forall>i. i < length (sockets c) \<and> onmessage (sockets c ! i) \<longrightarrow>
             env_step h (c, state) (Socket_message i frame) = Some (c, state)" by simp
  with r show ?thesis by blast
qed

text \<open>
  The theorem at the client of the scenario, for a text that is no JSON, for a frame with
  \<open>e: "otherEvent"\<close>, and for a frame of the symbol \<open>ETHUSDT\<close> when the registry holds
  \<open>BTCUSDT\<close> only.
\<close>

theorem bad_frames_are_dropped_witness:
  "JSON_parse ex_host ''{oops'' = Inl SyntaxError
   \<and> handleMessage ex_host ex_client ''{oops'' = Caught SyntaxError
   \<and> JSON_parse ex_host ''other'' = Inr (ticker_frame ''otherEvent'' ''BTCUSDT'')
   \<and> handleMessage ex_host ex_client ''other'' = Returned
   \<and> JSON_parse ex_host ''eth'' = Inr (ticker_frame ''24hrTicker'' ''ETHUSDT'')
   \<and> symbolToIdMap ex_client (toUpperCase ex_host ''ETHUSDT'') = None
   \<and> handleMessage ex_host ex_client ''eth'' = Returned
   \<and> store_after_message ex_host ex_client ex_state ''{oops'' = ex_state
   \<and> store_after_message ex_host ex_client ex_state ''other'' = ex_state
   \<and> store_after_message ex_host ex_client ex_state ''eth'' = ex_state
   \<and> env_step ex_host (ex_client, ex_state) (Socket_message 0 ''eth'') = Some (ex_client, ex_state)"
proof -
  let ?eth_data = "JObj [(''e'', JStr ''24hrTicker''), (''s'', JStr ''ETHUSDT''),
                            (''c'', JStr ''8''), (''P'', JStr ''1.5''), (''q'', JStr ''1000'')]"
  have a: "JSON_parse ex_host ''{oops'' = Inl SyntaxError" by (simp add: ex_host_def)
  have b: "JSON_parse ex_host ''other'' = Inr (ticker_frame ''otherEvent'' ''BTCUSDT'')"
    by (simp add: ex_host_def)
  have b': "\<forall>d. get_prop (ticker_frame ''otherEvent'' ''BTCUSDT'') ''data'' = Inr d
      \<longrightarrow> get_prop d ''e'' \<noteq> Inr (JStr ''24hrTicker'')"
    by (simp add: ticker_frame_def)
  have c: "JSON_parse ex_host ''eth'' = Inr (ticker_frame ''24hrTicker'' ''ETHUSDT'')"
    by (simp add: ex_host_def)
  have c1: "get_prop (ticker_frame ''24hrTicker'' ''ETHUSDT'') ''data'' = Inr ?eth_data"
    by (simp add: ticker_frame_def)
  have c2: "get_prop ?eth_data ''s'' = Inr (JStr ''ETHUSDT'')" by simp
  have c3: "symbolToIdMap ex_client (toUpperCase ex_host ''ETHUSDT'') = None"
    by (simp add: ex_client_eq case_defs)
  then have c4: "\<forall>s. JStr ''ETHUSDT'' = JStr s \<longrightarrow> symbolToIdMap ex_client (toUpperCase ex_host s) = None"
    by simp
  have ta: "JSON_parse ex_host ''{oops'' = Inl SyntaxError
      \<or> (JSON_parse ex_host ''{oops'' = Inr JNull
          \<and> (\<forall>d. get_prop JNull ''data'' = Inr d \<longrightarrow> get_prop d ''e'' \<noteq> Inr (JStr ''24hrTicker'')))
      \<or> (JSON_parse ex_host ''{oops'' = Inr JNull \<and> get_prop JNull ''data'' = Inr JNull
          \<and> get_prop JNull ''s'' = Inr JNull
          \<and> (\<forall>s. JNull = JStr s \<longrightarrow> symbolToIdMap ex_client (toUpperCase ex_host s) = None))"
    using a by simp
  note wa = bad_frames_are_dropped [OF ta, of ex_state]
  note wb = bad_frames_are_dropped [of ex_host "''other''" SyntaxError
      "ticker_frame ''otherEvent'' ''BTCUSDT''" JNull JNull ex_client ex_state]
  note wc = bad_frames_are_dropped [of ex_host "''eth''" SyntaxError
      "ticker_frame ''24hrTicker'' ''ETHUSDT''" ?eth_data "JStr ''ETHUSDT''" ex_client ex_state]
  from wa have ra: "store_after_message ex_host ex_client ex_state ''{oops'' = ex_state" by blast
  from wb b b' have rb: "store_after_message ex_host ex_client ex_state ''other'' = ex_state" by blast
  from wc c c1 c2 c4 have rc: "store_after_message ex_host ex_client ex_state ''eth'' = ex_state"
    by blast
  from wc c c1 c2 c4 have "0 < length (sockets ex_client) \<and> onmessage (sockets ex_client ! 0) \<longrightarrow>
             env_step ex_host (ex_client, ex_state) (Socket_message 0 ''eth'') = Some (ex_client, ex_state)"
    by blast
  then have rd: "env_step ex_host (ex_client, ex_state) (Socket_message 0 ''eth'') = Some (ex_client, ex_state)"
    by (simp add: ex_client_eq)
  have ha: "handleMessage ex_host ex_client ''{oops'' = Caught SyntaxError"
    by (simp add: handleMessage_def handleMessage_try_def ex_host_def)
  have hb: "handleMessage ex_host ex_client ''other'' = Returned"
    by (simp add: handleMessage_def handleMessage_try_def ex_host_def ticker_frame_def)
  have hc: "handleMessage ex_host ex_client ''eth'' = Returned"
    using c3 by (simp add: handleMessage_def handleMessage_try_def ex_host_def ticker_frame_def)
  from a ha b hb c c3 hc ra rb rc rd show ?thesis by blast
qed

section \<open>The registry that \<open>start\<close> builds\<close>

lemma start_registry:
  assumes "assets' \<noteq> []"
  shows "symbolToIdMap (start h c assets') =
     foldl (\<lambda>m asset. m(toUpperCase h (symbol asset @ ''USDT'') \<mapsto> id' asset)) Map.empty assets'"
  using assms by (simp add: start_def Let_def split: option.splits)

lemma foldl_registry_other:
  assumes "\<forall>b \<in> set post. key b \<noteq> k"
  shows "foldl (\<lambda>m asset. m(key asset \<mapsto> val asset)) m0 post k = m0 k"
  using assms by (induction post arbitrary: m0) auto

lemma foldl_registry_last:
  assumes "\<forall>b \<in> set post. key b \<noteq> key a"
  shows "foldl (\<lambda>m asset. m(key asset \<mapsto> val asset)) m0 (pre @ a # post) (key a) = Some (val a)"
  using assms by (simp add: foldl_registry_other)

lemma foldl_registry_some:
  assumes "a \<in> set as" and "key a = k"
  shows "\<exists>b \<in> set as. key b = k \<and> foldl (\<lambda>m asset. m(key asset \<mapsto> val asset)) m0 as k = Some (val b)"
  using assms
proof (induction as arbitrary: m0 rule: rev_induct)
  case Nil
  then show ?case by simp
next
  case (snoc x xs)
  show ?case
  proof (cases "key x = k")
    case True
    then show ?thesis by auto
  next
    case False
    with snoc.prems have "a \<in> set xs" by auto
    from snoc.IH [OF this snoc.prems(2)] False show ?thesis by auto
  qed
qed

text \<open>With one key per asset, the entry of a key is the id of the asset that has it.\<close>

lemma foldl_registry_distinct:
  assumes "distinct (map key as)" and "a \<in> set as"
  shows "foldl (\<lambda>m asset. m(key asset \<mapsto> val asset)) m0 as (key a) = Some (val a)"
proof -
  from assms(2) obtain pre post where as: "as = pre @ a # post" by (auto dest: split_list)
  with assms(1) have "key a \<notin> key ` set post" by simp
  then have "\<forall>b \<in> set post. key b \<noteq> key a" by (metis imageI)
  then show ?thesis unfolding as by (rule foldl_registry_last)
qed

text \<open>
  A string that agrees with a lower-case word up to the case of each letter is an ASCII
  string, and the ASCII mapping takes it to the upper-case word.
\<close>

lemma letter_case_variant:
  assumes "list_all2 (\<lambda>c (l, u). c = l \<or> c = u) s ps"
    and "\<forall>(l, u) \<in> set ps. upper_char l = u \<and> upper_char u = u
           \<and> (of_char l :: nat) < 128 \<and> (of_char u :: nat) < 128"
  shows "ascii s \<and> map upper_char s = map snd ps"
  using assms unfolding ascii_def by (induction rule: list_all2_induct) auto

lemma btcusdt_variant:
  assumes "list_all2 (\<lambda>c (l, u). c = l \<or> c = u) s (zip ''btcusdt'' ''BTCUSDT'')"
  shows "ascii s \<and> map upper_char s = ''BTCUSDT''"
proof -
  have "\<forall>(l, u) \<in> set (zip ''btcusdt'' ''BTCUSDT''). upper_char l = u \<and> upper_char u = u
           \<and> (of_char l :: nat) < 128 \<and> (of_char u :: nat) < 128"
    by (simp add: upper_char_def)
  from letter_case_variant [OF assms this] show ?thesis by simp
qed

text \<open>
  Claim C9. After \<open>start\<close> with a list that holds an asset \<open>a\<close>, a string whose upper-case
  form is the key \<open>upper-case(symbol + "USDT")\<close> of \<open>a\<close> resolves: to the id of an asset with
  that key and, when the keys of the list are distinct (one registry entry per subscribed
  asset, as in the data model), to the id of \<open>a\<close>. In particular, on a host whose case
  mappings act on ASCII strings as JavaScript's do, and for a list with distinct keys that
  holds an asset with the symbol \<open>BTC\<close> and the id \<open>X\<close>, the string \<open>btcusdt\<close> in any letter
  case (each character the lower-case or the upper-case letter) resolves to \<open>X\<close>.
\<close>

theorem resolve_is_case_insensitive:
  "(a \<in> set assets' \<and> toUpperCase h s = toUpperCase h (symbol a @ ''USDT'')
    \<longrightarrow> (\<exists>b \<in> set assets'. toUpperCase h (symbol b @ ''USDT'') = toUpperCase h s
          \<and> mapBinanceSymbolToAssetId h (start h c assets') (JStr s) = Inr (Some (id' b))))
   \<and> (distinct (map (\<lambda>b. toUpperCase h (symbol b @ ''USDT'')) assets')
      \<and> a \<in> set assets' \<and> toUpperCase h s = toUpperCase h (symbol a @ ''USDT'')
    \<longrightarrow> mapBinanceSymbolToAssetId h (start h c assets') (JStr s) = Inr (Some (id' a)))
   \<and> (ascii_case_mapping h
      \<and> distinct (map (\<lambda>b. toUpperCase h (symbol b @ ''USDT'')) assets')
      \<and> a \<in> set assets' \<and> symbol a = ''BTC'' \<and> id' a = X
      \<and> list_all2 (\<lambda>c (l, u). c = l \<or> c = u) s (zip ''btcusdt'' ''BTCUSDT'')
    \<longrightarrow> mapBinanceSymbolToAssetId h (start h c assets') (JStr s) = Inr (Some X))"
proof (intro conjI impI)
  let ?key = "\<lambda>asset. toUpperCase h (symbol asset @ ''USDT'')"
  let ?reg = "foldl (\<lambda>m asset. m(?key asset \<mapsto> id' asset)) Map.empty assets'"
  {
    assume g: "a \<in> set assets' \<and> toUpperCase h s = ?key a"
    then have ne: "assets' \<noteq> []" by auto
    from g have "a \<in> set assets'" "?key a = toUpperCase h s" by simp_all
    from foldl_registry_some [of a assets' ?key "toUpperCase h s" id' Map.empty, OF this]
    show "\<exists>b \<in> set assets'. ?key b = toUpperCase h s
          \<and> mapBinanceSymbolToAssetId h (start h c assets') (JStr s) = Inr (Some (id' b))"
      by (simp add: start_registry [OF ne])
  }
  {
    assume g: "distinct (map ?key assets') \<and> a \<in> set assets' \<and> toUpperCase h s = ?key a"
    then have ne: "assets' \<noteq> []" by auto
    from g have "?reg (?key a) = Some (id' a)" by (intro foldl_registry_distinct) simp_all
    with g show "mapBinanceSymbolToAssetId h (start h c assets') (JStr s) = Inr (Some (id' a))"
      by (simp add: start_registry [OF ne])
  }
  {
    assume g: "ascii_case_mapping h \<and> distinct (map ?key assets')
      \<and> a \<in> set assets' \<and> symbol a = ''BTC'' \<and> id' a = X
      \<and> list_all2 (\<lambda>c (l, u). c = l \<or> c = u) s (zip ''btcusdt'' ''BTCUSDT'')"
    then have ne: "assets' \<noteq> []" by auto
    from g have v: "ascii s" "map upper_char s = ''BTCUSDT''" by (simp_all add: btcusdt_variant)
    have "ascii ''BTCUSDT''" by (simp add: ascii_def)
    with g have ka: "?key a = map upper_char ''BTCUSDT''" by (simp add: ascii_case_mapping_def)
    then have ka': "?key a = ''BTCUSDT''" by (simp add: upper_char_def)
    from g v have up: "toUpperCase h s = ''BTCUSDT''" by (simp add: ascii_case_mapping_def)
    from g have "?reg (?key a) = Some (id' a)" by (intro foldl_registry_distinct) simp_all
    with g up ka' show "mapBinanceSymbolToAssetId h (start h c assets') (JStr s) = Inr (Some X)"
      by (simp add: start_registry [OF ne])
  }
qed

text \<open>
  The theorem at the two assets of the scenario, whose keys are \<open>BTCUSDT\<close> and \<open>ETHUSDT\<close>,
  and the string \<open>BtcUsdT\<close>.
\<close>

theorem resolve_is_case_insensitive_witness:
  "ascii_case_mapping ex_host
   \<and> map (\<lambda>b. toUpperCase ex_host (symbol b @ ''USDT'')) [ex_bitcoin, ex_ethereum]
       = [''BTCUSDT'', ''ETHUSDT'']
   \<and> symbol ex_bitcoin = ''BTC'' \<and> id' ex_bitcoin = ''bitcoin''
   \<and> list_all2 (\<lambda>c (l, u). c = l \<or> c = u) ''BtcUsdT'' (zip ''btcusdt'' ''BTCUSDT'')
   \<and> mapBinanceSymbolToAssetId ex_host (start ex_host new_client [ex_bitcoin, ex_ethereum])
        (JStr ''BtcUsdT'') = Inr (Some ''bitcoin'')"
proof -
  have m: "ascii_case_mapping ex_host" by (simp add: ascii_case_mapping_def ex_host_def)
  have k: "map (\<lambda>b. toUpperCase ex_host (symbol b @ ''USDT'')) [ex_bitcoin, ex_ethereum]
       = [''BTCUSDT'', ''ETHUSDT'']"
    by (simp add: ex_host_def ex_bitcoin_def ex_ethereum_def upper_char_def)
  then have d: "distinct (map (\<lambda>b. toUpperCase ex_host (symbol b @ ''USDT'')) [ex_bitcoin, ex_ethereum])"
    by simp
  have f: "symbol ex_bitcoin = ''BTC''" "id' ex_bitcoin = ''bitcoin''" by (simp_all add: ex_bitcoin_def)
  have v: "list_all2 (\<lambda>c (l, u). c = l \<or> c = u) ''BtcUsdT'' (zip ''btcusdt'' ''BTCUSDT'')" by simp
  note w = resolve_is_case_insensitive [where h = ex_host and assets' = "[ex_bitcoin, ex_ethereum]"
      and a = ex_bitcoin and X = "''bitcoin''" and s = "''BtcUsdT''" and c = new_client]
  from w m d f v have r: "mapBinanceSymbolToAssetId ex_host (start ex_host new_client [ex_bitcoin, ex_ethereum])
        (JStr ''BtcUsdT'') = Inr (Some ''bitcoin'')" by simp
  from m k f v r show ?thesis by blast
qed

section \<open>From a ticker frame to the store\<close>

lemma handleMessage_ticker:
  assumes "handleMessage_try h c frame = Inr (Some u)"
  shows "handleMessage h c frame = Dispatched u"
    and "store_after_message h c state frame = updateAsset state u"
  using assms by (simp_all add: handleMessage_def store_after_message_def)

text \<open>
  Claim C7, as amended. Let the frame parse to a value whose \<open>data.e\<close> is the string
  \<open>24hrTicker\<close> and whose \<open>data.s\<close> is a string that the registry maps to a non-empty asset
  id, and let \<open>parseFloat\<close> return on \<open>data.c\<close>, \<open>data.P\<close> and \<open>data.q\<close>, as it does on every
  string. Then the handler dispatches once, and the event has the fields \<open>id\<close> (the id
  resolved), \<open>price\<close>, \<open>percentChange24h\<close> and \<open>volume24h\<close> (the three numbers parsed) and
  no other field; the store is updated by the reducer with that event. In particular,
  after \<open>start\<close> with the one asset \<open>{id: "bitcoin", symbol: "BTC"}\<close> of sparkline
  \<open>[1,2,3,4,5,6,7]\<close>, the frame of the scenario yields the event
  \<open>{id: "bitcoin", price: 8, percentChange24h: 1.5, volume24h: 1000}\<close> and the sparkline
  \<open>[2,3,4,5,6,7,8]\<close>.
\<close>

theorem ticker_frame_emits_one_event:
  "(JSON_parse h frame = Inr message
      \<and> get_prop message ''data'' = Inr d
      \<and> get_prop d ''e'' = Inr (JStr ''24hrTicker'')
      \<and> get_prop d ''s'' = Inr (JStr s)
      \<and> symbolToIdMap c (toUpperCase h s) = Some assetId \<and> assetId \<noteq> []
      \<and> get_prop d ''c'' = Inr vc \<and> parseFloat h vc = Inr pc
      \<and> get_prop d ''P'' = Inr vP \<and> parseFloat h vP = Inr pP
      \<and> get_prop d ''q'' = Inr vq \<and> parseFloat h vq = Inr pq
    \<longrightarrow> handleMessage h c frame =
          Dispatched \<lparr>p_id = assetId, p_price = Some pc, p_percentChange1h = None,
                      p_percentChange24h = Some pP, p_percentChange7d = None,
                      p_volume24h = Some pq, p_sparkline7d = None\<rparr>
        \<and> store_after_message h c state frame =
          updateAsset state \<lparr>p_id = assetId, p_price = Some pc, p_percentChange1h = None,
                      p_percentChange24h = Some pP, p_percentChange7d = None,
                      p_volume24h = Some pq, p_sparkline7d = None\<rparr>)
   \<and> (JSON_parse h frame = Inr ex_frame
      \<and> parseFloat h (JStr ''8'') = Inr (Finite 8)
      \<and> parseFloat h (JStr ''1.5'') = Inr (Finite (3 / 2))
      \<and> parseFloat h (JStr ''1000'') = Inr (Finite 1000)
      \<and> id' a = ''bitcoin'' \<and> symbol a = ''BTC''
      \<and> sparkline7d a = [Finite 1, Finite 2, Finite 3, Finite 4, Finite 5, Finite 6, Finite 7]
      \<and> assets state = [a]
    \<longrightarrow> handleMessage h (start h c [a]) frame =
          Dispatched \<lparr>p_id = ''bitcoin'', p_price = Some (Finite 8), p_percentChange1h = None,
                      p_percentChange24h = Some (Finite (3 / 2)), p_percentChange7d = None,
                      p_volume24h = Some (Finite 1000), p_sparkline7d = None\<rparr>
        \<and> sparkline7d (assets (store_after_message h (start h c [a]) state frame) ! 0) =
          [Finite 2, Finite 3, Finite 4, Finite 5, Finite 6, Finite 7, Finite 8])"
proof (intro conjI impI)
  let ?u = "\<lparr>p_id = assetId, p_price = Some pc, p_percentChange1h = None,
                      p_percentChange24h = Some pP, p_percentChange7d = None,
                      p_volume24h = Some pq, p_sparkline7d = None\<rparr>"
  {
    assume g: "JSON_parse h frame = Inr message
      \<and> get_prop message ''data'' = Inr d
      \<and> get_prop d ''e'' = Inr (JStr ''24hrTicker'')
      \<and> get_prop d ''s'' = Inr (JStr s)
      \<and> symbolToIdMap c (toUpperCase h s) = Some assetId \<and> assetId \<noteq> []
      \<and> get_prop d ''c'' = Inr vc \<and> parseFloat h vc = Inr pc
      \<and> get_prop d ''P'' = Inr vP \<and> parseFloat h vP = Inr pP
      \<and> get_prop d ''q'' = Inr vq \<and> parseFloat h vq = Inr pq"
    then have "handleMessage_try h c frame = Inr (Some ?u)"
      by (intro handleMessage_try_ticker [of h frame message d s c assetId vc pc vP pP vq pq]) simp_all
    from handleMessage_ticker [OF this]
    show "handleMessage h c frame = Dispatched ?u"
      and "store_after_message h c state frame = updateAsset state ?u" by simp_all
  }
  let ?c = "start h c [a]"
  let ?d = "JObj [(''e'', JStr ''24hrTicker''), (''s'', JStr ''BTCUSDT''),
                            (''c'', JStr ''8''), (''P'', JStr ''1.5''), (''q'', JStr ''1000'')]"
  let ?v = "\<lparr>p_id = ''bitcoin'', p_price = Some (Finite 8), p_percentChange1h = None,
                      p_percentChange24h = Some (Finite (3 / 2)), p_percentChange7d = None,
                      p_volume24h = Some (Finite 1000), p_sparkline7d = None\<rparr>"
  {
    assume g: "JSON_parse h frame = Inr ex_frame
      \<and> parseFloat h (JStr ''8'') = Inr (Finite 8)
      \<and> parseFloat h (JStr ''1.5'') = Inr (Finite (3 / 2))
      \<and> parseFloat h (JStr ''1000'') = Inr (Finite 1000)
      \<and> id' a = ''bitcoin'' \<and> symbol a = ''BTC''
      \<and> sparkline7d a = [Finite 1, Finite 2, Finite 3, Finite 4, Finite 5, Finite 6, Finite 7]
      \<and> assets state = [a]"
    have data: "get_prop ex_frame ''data'' = Inr ?d" by (simp add: ex_frame_def ticker_frame_def)
    from g have reg: "symbolToIdMap ?c (toUpperCase h ''BTCUSDT'') = Some ''bitcoin''"
      by (simp add: start_registry case_defs)
    from g have "handleMessage_try h ?c frame = Inr (Some ?v)"
      by (intro handleMessage_try_ticker [of h frame ex_frame ?d "''BTCUSDT''" ?c "''bitcoin''"
            "JStr ''8''" "Finite 8" "JStr ''1.5''" "Finite (3 / 2)" "JStr ''1000''" "Finite 1000"])
        (simp_all add: data reg)
    note t = handleMessage_ticker [OF this]
    from t(1) show "handleMessage h ?c frame = Dispatched ?v" .
    have sh: "shifts ?v" by (simp add: shifts_def)
    from g have "updateAsset state ?v =
        state\<lparr>assets := (assets state)[0 := (spread (assets state ! 0) ?v)
          \<lparr>sparkline7d := tl (sparkline7d (assets state ! 0)) @ [the (p_price ?v)]\<rparr>]\<rparr>"
      using sh by (subst updateAsset_matched [of 0 state ?v]) simp_all
    with g show "sparkline7d (assets (store_after_message h ?c state frame) ! 0) =
          [Finite 2, Finite 3, Finite 4, Finite 5, Finite 6, Finite 7, Finite 8]"
      by (simp add: t(2) [of state])
  }
qed

text \<open>The theorem at the host, the client and the store of the scenario.\<close>

theorem ticker_frame_emits_one_event_witness:
  "JSON_parse ex_host ''ticker'' = Inr ex_frame
   \<and> parseFloat ex_host (JStr ''8'') = Inr (Finite 8)
   \<and> symbolToIdMap ex_client (toUpperCase ex_host ''BTCUSDT'') = Some ''bitcoin''
   \<and> handleMessage ex_host ex_client ''ticker'' =
       Dispatched \<lparr>p_id = ''bitcoin'', p_price = Some (Finite 8), p_percentChange1h = None,
                   p_percentChange24h = Some (Finite (3 / 2)), p_percentChange7d = None,
                   p_volume24h = Some (Finite 1000), p_sparkline7d = None\<rparr>
   \<and> sparkline7d (assets (store_after_message ex_host ex_client ex_state ''ticker'') ! 0) =
       [Finite 2, Finite 3, Finite 4, Finite 5, Finite 6, Finite 7, Finite 8]
   \<and> sparkline7d (assets (store_after_message ex_host (start ex_host new_client [ex_bitcoin])
        \<lparr>assets = [ex_bitcoin], status = Succeeded, error = ErrNull\<rparr> ''ticker'') ! 0) =
       [Finite 2, Finite 3, Finite 4, Finite 5, Finite 6, Finite 7, Finite 8]"
proof -
  let ?d = "JObj [(''e'', JStr ''24hrTicker''), (''s'', JStr ''BTCUSDT''),
                            (''c'', JStr ''8''), (''P'', JStr ''1.5''), (''q'', JStr ''1000'')]"
  let ?v = "\<lparr>p_id = ''bitcoin'', p_price = Some (Finite 8), p_percentChange1h = None,
                      p_percentChange24h = Some (Finite (3 / 2)), p_percentChange7d = None,
                      p_volume24h = Some (Finite 1000), p_sparkline7d = None\<rparr>"
  have a: "JSON_parse ex_host ''ticker'' = Inr ex_frame" by (simp add: ex_host_def)
  have pf: "parseFloat ex_host (JStr ''8'') = Inr (Finite 8)"
    "parseFloat ex_host (JStr ''1.5'') = Inr (Finite (3 / 2))"
    "parseFloat ex_host (JStr ''1000'') = Inr (Finite 1000)" by (simp_all add: ex_host_def)
  have reg: "symbolToIdMap ex_client (toUpperCase ex_host ''BTCUSDT'') = Some ''bitcoin''"
    by (simp add: ex_client_eq case_defs)
  have dat: "get_prop ex_frame ''data'' = Inr ?d" by (simp add: ex_frame_def ticker_frame_def)
  note w = ticker_frame_emits_one_event [where h = ex_host and frame = "''ticker''"
      and a = ex_bitcoin and c = new_client
      and state = "\<lparr>assets = [ex_bitcoin], status = Succeeded, error = ErrNull\<rparr>"]
  note w2 = ticker_frame_emits_one_event [where h = ex_host and frame = "''ticker''"
      and message = ex_frame and d = ?d and s = "''BTCUSDT''" and c = ex_client
      and assetId = "''bitcoin''" and vc = "JStr ''8''" and pc = "Finite 8"
      and vP = "JStr ''1.5''" and pP = "Finite (3 / 2)" and vq = "JStr ''1000''"
      and pq = "Finite 1000" and state = ex_state]
  from w2 a pf reg dat have r1: "handleMessage ex_host ex_client ''ticker'' = Dispatched ?v"
    and r2: "store_after_message ex_host ex_client ex_state ''ticker'' = updateAsset ex_state ?v"
    by simp_all
  have "sparkline7d (assets (updateAsset ex_state ?v) ! 0) =
       [Finite 2, Finite 3, Finite 4, Finite 5, Finite 6, Finite 7, Finite 8]"
    by (simp add: updateAsset_def shifts_def spread_def Let_def ex_defs)
  with r2 have r3: "sparkline7d (assets (store_after_message ex_host ex_client ex_state ''ticker'') ! 0) =
       [Finite 2, Finite 3, Finite 4, Finite 5, Finite 6, Finite 7, Finite 8]" by simp
  from w a pf have r4: "sparkline7d (assets (store_after_message ex_host (start ex_host new_client [ex_bitcoin])
        \<lparr>assets = [ex_bitcoin], status = Succeeded, error = ErrNull\<rparr> ''ticker'') ! 0) =
       [Finite 2, Finite 3, Finite 4, Finite 5, Finite 6, Finite 7, Finite 8]"
    by (simp add: ex_bitcoin_def)
  from a pf(1) reg r1 r3 r4 show ?thesis by blast
qed

text \<open>
  The claim C7 as it is written, for every frame whose symbol resolves, fails when the
  symbol resolves to the empty string: the guard \<open>if (!assetId) return\<close> holds for the
  empty id as it does for \<open>undefined\<close>, and nothing is dispatched.
\<close>

theorem empty_id_frame_is_dropped:
  "JSON_parse ex_host ''ticker'' = Inr ex_frame
   \<and> mapBinanceSymbolToAssetId ex_host (start ex_host new_client [ex_bitcoin\<lparr>id' := []\<rparr>]) (JStr ''BTCUSDT'')
       = Inr (Some [])
   \<and> handleMessage ex_host (start ex_host new_client [ex_bitcoin\<lparr>id' := []\<rparr>]) ''ticker'' = Returned
   \<and> store_after_message ex_host (start ex_host new_client [ex_bitcoin\<lparr>id' := []\<rparr>])
        \<lparr>assets = [ex_bitcoin\<lparr>id' := []\<rparr>], status = Succeeded, error = ErrNull\<rparr> ''ticker''
       = \<lparr>assets = [ex_bitcoin\<lparr>id' := []\<rparr>], status = Succeeded, error = ErrNull\<rparr>"
proof -
  let ?c = "start ex_host new_client [ex_bitcoin\<lparr>id' := []\<rparr>]"
  have reg: "symbolToIdMap ?c = [''BTCUSDT'' \<mapsto> []]"
    by (simp add: start_registry ex_bitcoin_def case_defs)
  have a: "JSON_parse ex_host ''ticker'' = Inr ex_frame" by (simp add: ex_host_def)
  have b: "mapBinanceSymbolToAssetId ex_host ?c (JStr ''BTCUSDT'') = Inr (Some [])"
    by (simp add: reg case_defs)
  have "handleMessage_try ex_host ?c ''ticker'' = Inr None"
    unfolding handleMessage_try_def by (simp add: a reg case_defs ex_frame_def ticker_frame_def)
  then have c: "handleMessage ex_host ?c ''ticker'' = Returned"
    by (simp add: handleMessage_def)
  then have d: "store_after_message ex_host ?c
        \<lparr>assets = [ex_bitcoin\<lparr>id' := []\<rparr>], status = Succeeded, error = ErrNull\<rparr> ''ticker''
       = \<lparr>assets = [ex_bitcoin\<lparr>id' := []\<rparr>], status = Succeeded, error = ErrNull\<rparr>"
    by (simp add: store_after_message_def)
  from a b c d show ?thesis by blast
qed

section \<open>A price of zero from the feed\<close>

text \<open>
  Claim C1, at an input where the code departs from it. The store holds the asset
  \<open>bitcoin\<close> with the sparkline \<open>[1,2,3,4,5,6,7]\<close>, and the event has the id \<open>bitcoin\<close>, the
  price \<open>0\<close> and no \<open>sparkline7d\<close> field. The reducer stores the price \<open>0\<close> and leaves the
  sparkline as it was, where the claim gives \<open>[2,3,4,5,6,7,0]\<close>: the guard
  \<open>action.payload.price && \<dots>\<close> tests the price for truthiness, not for presence. The
  event is one that the feed delivers: a ticker frame whose last price is the text
  \<open>0.00000000\<close> makes the handler dispatch it, and the store after that frame has the
  price \<open>0\<close> and the old sparkline.
\<close>
theorem zero_price_update_keeps_sparkline:
  "p_price ((ex_payload ''bitcoin'')\<lparr>p_price := Some (Finite 0)\<rparr>) = Some (Finite 0)
   \<and> p_sparkline7d ((ex_payload ''bitcoin'')\<lparr>p_price := Some (Finite 0)\<rparr>) = None
   \<and> sparkline7d (assets ex_state ! 0)
       = [Finite 1, Finite 2, Finite 3, Finite 4, Finite 5, Finite 6, Finite 7]
   \<and> sparkline7d (assets (updateAsset ex_state ((ex_payload ''bitcoin'')\<lparr>p_price := Some (Finite 0)\<rparr>)) ! 0)
       = [Finite 1, Finite 2, Finite 3, Finite 4, Finite 5, Finite 6, Finite 7]
   \<and> sparkline7d (assets (updateAsset ex_state ((ex_payload ''bitcoin'')\<lparr>p_price := Some (Finite 0)\<rparr>)) ! 0)
       \<noteq> tl (sparkline7d (assets ex_state ! 0)) @ [Finite 0]
   \<and> price (assets (updateAsset ex_state ((ex_payload ''bitcoin'')\<lparr>p_price := Some (Finite 0)\<rparr>)) ! 0)
       = Finite 0
   \<and> handleMessage zero_host ex_client ''zero'' =
       Dispatched \<lparr>p_id = ''bitcoin'', p_price = Some (Finite 0), p_percentChange1h = None,
                   p_percentChange24h = Some (Finite (3 / 2)), p_percentChange7d = None,
                   p_volume24h = Some (Finite 1000), p_sparkline7d = None\<rparr>
   \<and> sparkline7d (assets (store_after_message zero_host ex_client ex_state ''zero'') ! 0)
       = [Finite 1, Finite 2, Finite 3, Finite 4, Finite 5, Finite 6, Finite 7]
   \<and> price (assets (store_after_message zero_host ex_client ex_state ''zero'') ! 0) = Finite 0"
proof -
  let ?u = "(ex_payload ''bitcoin'')\<lparr>p_price := Some (Finite 0)\<rparr>"
  let ?v = "\<lparr>p_id = ''bitcoin'', p_price = Some (Finite 0), p_percentChange1h = None,
                   p_percentChange24h = Some (Finite (3 / 2)), p_percentChange7d = None,
                   p_volume24h = Some (Finite 1000), p_sparkline7d = None\<rparr>"
  have a: "p_price ?u = Some (Finite 0)" "p_sparkline7d ?u = None"
    "sparkline7d (assets ex_state ! 0)
       = [Finite 1, Finite 2, Finite 3, Finite 4, Finite 5, Finite 6, Finite 7]"
    by (simp_all add: ex_defs)
  have b: "sparkline7d (assets (updateAsset ex_state ?u) ! 0)
       = [Finite 1, Finite 2, Finite 3, Finite 4, Finite 5, Finite 6, Finite 7]"
    "sparkline7d (assets (updateAsset ex_state ?u) ! 0) \<noteq> tl (sparkline7d (assets ex_state ! 0)) @ [Finite 0]"
    "price (assets (updateAsset ex_state ?u) ! 0) = Finite 0"
    by (simp_all add: updateAsset_def shifts_def spread_def Let_def ex_defs)
  have "handleMessage_try zero_host ex_client ''zero'' = Inr (Some ?v)"
    by (simp add: handleMessage_try_def zero_host_def zero_frame_def ex_client_eq case_defs)
  then have c: "handleMessage zero_host ex_client ''zero'' = Dispatched ?v"
    and d: "store_after_message zero_host ex_client ex_state ''zero'' = updateAsset ex_state ?v"
    by (simp_all add: handleMessage_def store_after_message_def)
  have e: "sparkline7d (assets (updateAsset ex_state ?v) ! 0)
       = [Finite 1, Finite 2, Finite 3, Finite 4, Finite 5, Finite 6, Finite 7]"
    "price (assets (updateAsset ex_state ?v) ! 0) = Finite 0"
    by (simp_all add: updateAsset_def shifts_def spread_def Let_def ex_defs)
  from a b c d e show ?thesis by simp
qed

end
